theory Spec2Isabelle
  imports Complex_Main
begin


section \<open>Python values\<close>

text \<open>
  The values \<open>response.json()\<close> can return: \<open>None\<close>, booleans, integers, floats,
  strings, lists and dictionaries. A dictionary is an association list in insertion
  order; a float is represented by its exact rational value.
\<close>

datatype json =
    JNull
  | JBool bool
  | JInt int
  | JFloat rat
  | JStr string
  | JArr "json list"
  | JObj "(string \<times> json) list"

text \<open>Python truthiness (\<open>if x:\<close>, \<open>not x\<close>, \<open>all([...])\<close>) of a decoded value.\<close>

fun truthy :: "json \<Rightarrow> bool" where
  "truthy JNull = False"
| "truthy (JBool b) = b"
| "truthy (JInt i) = (i \<noteq> 0)"
| "truthy (JFloat q) = (q \<noteq> 0)"
| "truthy (JStr s) = (s \<noteq> [])"
| "truthy (JArr xs) = (xs \<noteq> [])"
| "truthy (JObj kvs) = (kvs \<noteq> [])"

text \<open>
  \<open>os.getenv\<close> returns \<open>None\<close> or a string; such a value is truthy when it is a
  non-empty string.
\<close>

definition present :: "string option \<Rightarrow> bool" where
  "present v = (case v of None \<Rightarrow> False | Some s \<Rightarrow> s \<noteq> [])"

text \<open>How an f-string renders an optional string (\<open>None\<close> prints as \<open>None\<close>).\<close>

definition fmt_opt :: "string option \<Rightarrow> string" where
  "fmt_opt v = (case v of None \<Rightarrow> ''None'' | Some s \<Rightarrow> s)"

text \<open>Python's \<open>needle in haystack\<close> on strings.\<close>

fun is_prefix :: "string \<Rightarrow> string \<Rightarrow> bool" where
  "is_prefix [] ys = True"
| "is_prefix (x # xs) [] = False"
| "is_prefix (x # xs) (y # ys) = (x = y \<and> is_prefix xs ys)"

fun py_in :: "string \<Rightarrow> string \<Rightarrow> bool" where
  "py_in s [] = (s = [])"
| "py_in s (c # t) = (is_prefix s (c # t) \<or> py_in s t)"

text \<open>Decimal rendering of a non-negative integer, as \<open>str\<close> and f-strings do.\<close>

definition digit_char :: "nat \<Rightarrow> char" where
  "digit_char d = ''0123456789'' ! d"

fun str_nat :: "nat \<Rightarrow> string" where
  "str_nat n = (if n < 10 then [digit_char n] else str_nat (n div 10) @ [digit_char (n mod 10)])"

declare str_nat.simps [simp del]

section \<open>config.py\<close>

record Config =
  dataverse_url :: "string option"
  environment_id :: "string option"
  client_id :: "string option"
  client_secret :: "string option"
  tenant_id :: "string option"
  username :: "string option"
  password :: "string option"
  access_token :: "string option"

text \<open>
  \<open>Config.__init__\<close>: every field is \<open>os.getenv\<close> of its variable. The environment
  is the process environment after \<open>load_dotenv()\<close>.
\<close>

definition Config_init :: "(string \<rightharpoonup> string) \<Rightarrow> Config" where
  "Config_init env =
     \<lparr> dataverse_url = env ''DATAVERSE_URL'',
       environment_id = env ''DATAVERSE_ENVIRONMENT_ID'',
       client_id = env ''DATAVERSE_CLIENT_ID'',
       client_secret = env ''DATAVERSE_CLIENT_SECRET'',
       tenant_id = env ''DATAVERSE_TENANT_ID'',
       username = env ''DATAVERSE_USERNAME'',
       password = env ''DATAVERSE_PASSWORD'',
       access_token = env ''DATAVERSE_ACCESS_TOKEN'' \<rparr>"

definition has_service_principal_auth :: "Config \<Rightarrow> bool" where
  "has_service_principal_auth c =
     (present (dataverse_url c) \<and> present (client_id c) \<and>
      present (client_secret c) \<and> present (tenant_id c))"

definition has_user_auth :: "Config \<Rightarrow> bool" where
  "has_user_auth c =
     (present (dataverse_url c) \<and> present (client_id c) \<and> present (tenant_id c) \<and>
      present (username c) \<and> present (password c))"

definition has_token_auth :: "Config \<Rightarrow> bool" where
  "has_token_auth c = (present (access_token c) \<and> present (dataverse_url c))"

definition get_missing_credentials :: "Config \<Rightarrow> string list" where
  "get_missing_credentials c =
     (if present (access_token c) \<and> present (dataverse_url c) then []
      else (if \<not> present (dataverse_url c) then [''DATAVERSE_URL''] else []) @
           (if \<not> present (client_id c) then [''DATAVERSE_CLIENT_ID''] else []) @
           (if \<not> present (client_secret c) then [''DATAVERSE_CLIENT_SECRET''] else []) @
           (if \<not> present (tenant_id c) then [''DATAVERSE_TENANT_ID''] else []))"

text \<open>\<open>get_auth_scope\<close> raises \<open>ValueError\<close> (left) when the URL is not configured.\<close>

definition get_auth_scope :: "Config \<Rightarrow> string + string" where
  "get_auth_scope c =
     (if \<not> present (dataverse_url c) then Inl ''DATAVERSE_URL not configured''
      else Inr (fmt_opt (dataverse_url c) @ ''/.default''))"

text \<open>
  The service-principal requirement set as the specification names it: the four
  variables, in the order the code reports them, and the field each one fills.
\<close>

definition service_principal_vars :: "string list" where
  "service_principal_vars =
     [''DATAVERSE_URL'', ''DATAVERSE_CLIENT_ID'', ''DATAVERSE_CLIENT_SECRET'',
      ''DATAVERSE_TENANT_ID'']"

definition field_of_var :: "Config \<Rightarrow> string \<Rightarrow> string option" where
  "field_of_var c v =
     (if v = ''DATAVERSE_URL'' then dataverse_url c
      else if v = ''DATAVERSE_CLIENT_ID'' then client_id c
      else if v = ''DATAVERSE_CLIENT_SECRET'' then client_secret c
      else if v = ''DATAVERSE_TENANT_ID'' then tenant_id c
      else if v = ''DATAVERSE_USERNAME'' then username c
      else if v = ''DATAVERSE_PASSWORD'' then password c
      else if v = ''DATAVERSE_ACCESS_TOKEN'' then access_token c
      else if v = ''DATAVERSE_ENVIRONMENT_ID'' then environment_id c
      else None)"

definition absent_vars :: "Config \<Rightarrow> string list \<Rightarrow> string list" where
  "absent_vars c vs = filter (\<lambda>v. \<not> present (field_of_var c v)) vs"


section \<open>client.py: the API client\<close>

text \<open>
  The exceptions the modelled code raises or meets, each with the text \<open>str(e)\<close>
  gives. \<open>LibraryError\<close> is an exception raised inside MSAL; \<open>TyperExit\<close> is
  \<open>typer.Exit(code)\<close>, which is a \<open>RuntimeError\<close> and so an \<open>Exception\<close>.
\<close>

datatype exn =
    ClientError string
  | ValueError string
  | AttributeError string
  | TypeError string
  | KeyError string
  | IndexError string
  | LibraryError string
  | TyperExit nat

fun exn_str :: "exn \<Rightarrow> string" where
  "exn_str (ClientError m) = m"
| "exn_str (ValueError m) = m"
| "exn_str (AttributeError m) = m"
| "exn_str (TypeError m) = m"
| "exn_str (KeyError m) = m"
| "exn_str (IndexError m) = m"
| "exn_str (LibraryError m) = m"
| "exn_str (TyperExit n) = str_nat n"

subsection \<open>Header dictionaries\<close>

text \<open>
  \<open>session.headers\<close> and \<open>response.headers\<close> are case-insensitive dictionaries: a
  key is found whatever its case, and setting a key that is there replaces its entry
  in place. \<open>lower\<close> is \<open>str.lower()\<close> on the ASCII letters; every other character is
  left as it is.
\<close>

definition lower_char :: "char \<Rightarrow> char" where
  "lower_char c =
     (case map_of (zip ''ABCDEFGHIJKLMNOPQRSTUVWXYZ'' ''abcdefghijklmnopqrstuvwxyz'') c of
        None \<Rightarrow> c
      | Some l \<Rightarrow> l)"

definition lower :: "string \<Rightarrow> string" where
  "lower s = map lower_char s"

fun hdr_get :: "(string \<times> string) list \<Rightarrow> string \<Rightarrow> string option" where
  "hdr_get [] k = None"
| "hdr_get ((k', v) # hs) k = (if lower k' = lower k then Some v else hdr_get hs k)"

fun hdr_set :: "(string \<times> string) list \<Rightarrow> string \<Rightarrow> string \<Rightarrow> (string \<times> string) list" where
  "hdr_set [] k v = [(k, v)]"
| "hdr_set ((k', v') # hs) k v =
     (if lower k' = lower k then (k, v) # hs else (k', v') # hdr_set hs k v)"

fun hdr_update :: "(string \<times> string) list \<Rightarrow> (string \<times> string) list \<Rightarrow> (string \<times> string) list" where
  "hdr_update hs [] = hs"
| "hdr_update hs ((k, v) # kvs) = hdr_update (hdr_set hs k v) kvs"

subsection \<open>Requests and responses\<close>

datatype http_method = GET | POST | PATCH | DELETE

text \<open>
  A request as the client hands it to the session: \<open>req_headers\<close> are the session's
  headers at the moment of the call, which the session sends with the request.
\<close>

record request =
  req_method :: http_method
  req_url :: string
  req_headers :: "(string \<times> string) list"
  req_params :: "(string \<times> string) list option"
  req_json :: "json option"

text \<open>\<open>body_text\<close> is \<open>response.text\<close>.\<close>

record response =
  status_code :: nat
  body_text :: string
  headers :: "(string \<times> string) list"

text \<open>
  What lies outside the repository, as parameters:
  \<^item> \<open>default_headers\<close>: the headers a new \<open>requests.Session()\<close> starts with;
  \<^item> \<open>transport\<close>: the network, given the requests issued so far and the request;
    \<open>Inl m\<close> is a \<open>RequestException\<close> raised by the call itself (connection, timeout)
    with text \<open>m\<close>, \<open>Inr r\<close> the response the session call returns (the last one, when the
    session followed redirects);
  \<^item> \<open>json_decode\<close>: \<open>response.json()\<close> on a body; \<open>Inl m\<close> is its
    \<open>JSONDecodeError\<close>, a \<open>RequestException\<close>, with text \<open>m\<close>;
  \<^item> \<open>identity_provider\<close>: MSAL (see below);
  \<^item> \<open>format_response\<close>, \<open>handle_api_error\<close>: the helpers of \<open>output.py\<close>, which is
    not among the sources (see the commands);
  \<^item> \<open>py_str\<close>, \<open>py_eq\<close>: Python's \<open>str()\<close> on a decoded value that is not a string, and
    \<open>==\<close> on decoded values.
\<close>

datatype idp_request =
    ConfidentialClientApplication "string option" string "string option"
  | PublicClientApplication "string option" string
  | Acquire_token_for_client "string list"
  | Acquire_token_by_username_password "string option" "string option" "string list"

datatype console_output =
    Print_json json
  | Print_table json "string list"
  | Echo_err string

record externals =
  default_headers :: "(string \<times> string) list"
  transport :: "request list \<Rightarrow> request \<Rightarrow> string + response"
  json_decode :: "string \<Rightarrow> string + json"
  identity_provider :: "idp_request list \<Rightarrow> idp_request \<Rightarrow> string + (string \<times> string) list"
  format_response :: "json \<Rightarrow> json"
  handle_api_error :: "exn \<Rightarrow> console_output list \<times> nat"
  py_str :: "json \<Rightarrow> string"
  py_eq :: "json \<Rightarrow> json \<Rightarrow> bool"

subsection \<open>DataverseClient\<close>

record DataverseClient =
  dataverse_url :: string
  access_token :: "string option"
  api_base :: string
  session_headers :: "(string \<times> string) list"

definition rstrip_slash :: "string \<Rightarrow> string" where
  "rstrip_slash s = rev (dropWhile (\<lambda>c. c = CHR ''/'') (rev s))"

definition DataverseClient_init :: "externals \<Rightarrow> string \<Rightarrow> string option \<Rightarrow> DataverseClient" where
  "DataverseClient_init ext url token =
     \<lparr> dataverse_url = rstrip_slash url,
       access_token = token,
       api_base = rstrip_slash url @ ''/api/data/v9.2'',
       session_headers = hdr_update (default_headers ext)
         [(''Authorization'', ''Bearer '' @ fmt_opt token),
          (''Accept'', ''application/json''),
          (''OData-MaxVersion'', ''4.0''),
          (''OData-Version'', ''4.0'')] \<rparr>"

text \<open>
  \<open>response.raise_for_status()\<close> raises \<open>HTTPError\<close> for the status codes 400 to 599
  and for no other.
\<close>

definition raises_for_status :: "response \<Rightarrow> bool" where
  "raises_for_status r = (400 \<le> status_code r \<and> status_code r < 600)"

text \<open>The two \<open>except\<close> clauses every method ends with.\<close>

definition http_error :: "response \<Rightarrow> exn" where
  "http_error r = ClientError (''HTTP '' @ str_nat (status_code r) @ '': '' @ body_text r)"

definition request_failed :: "string \<Rightarrow> exn" where
  "request_failed m = ClientError (''Request failed: '' @ m)"

text \<open>\<open>response.json() if response.text else {}\<close>, inside the \<open>try\<close>.\<close>

definition json_or_empty :: "externals \<Rightarrow> response \<Rightarrow> exn + json" where
  "json_or_empty ext r =
     (if body_text r \<noteq> [] then
        (case json_decode ext (body_text r) of
           Inl m \<Rightarrow> Inl (request_failed m)
         | Inr j \<Rightarrow> Inr j)
      else Inr (JObj []))"

text \<open>
  Every method takes the requests issued so far and returns its result (\<open>Inl\<close>: the
  exception raised) with that list extended by its own request.
\<close>

definition get_request :: "DataverseClient \<Rightarrow> string \<Rightarrow> (string \<times> string) list option \<Rightarrow> request" where
  "get_request c endpoint params =
     \<lparr> req_method = GET, req_url = api_base c @ ''/'' @ endpoint,
       req_headers = session_headers c, req_params = params, req_json = None \<rparr>"

definition get :: "externals \<Rightarrow> DataverseClient \<Rightarrow> string \<Rightarrow> (string \<times> string) list option \<Rightarrow>
    request list \<Rightarrow> (exn + json) \<times> request list" where
  "get ext c endpoint params sent =
     (let rq = get_request c endpoint params in
      case transport ext sent rq of
        Inl m \<Rightarrow> (Inl (request_failed m), sent @ [rq])
      | Inr r \<Rightarrow>
          (if raises_for_status r then (Inl (http_error r), sent @ [rq])
           else (json_or_empty ext r, sent @ [rq])))"

text \<open>Python's \<open>s.split(sep)\<close> for a one-character separator.\<close>

fun split_char :: "char \<Rightarrow> string \<Rightarrow> string list" where
  "split_char sep [] = [[]]"
| "split_char sep (x # xs) =
     (if x = sep then [] # split_char sep xs
      else (case split_char sep xs of
              [] \<Rightarrow> [[x]]
            | y # ys \<Rightarrow> (x # y) # ys))"

text \<open>\<open>entity_id_header.split("(")[1].split(")")[0]\<close>; an index out of range raises.\<close>

definition entity_id_of :: "string \<Rightarrow> exn + string" where
  "entity_id_of h =
     (case split_char CHR ''('' h of
        _ # seg # _ \<Rightarrow>
          (case split_char CHR '')'' seg of
             s # _ \<Rightarrow> Inr s
           | [] \<Rightarrow> Inl (IndexError ''list index out of range''))
      | _ \<Rightarrow> Inl (IndexError ''list index out of range''))"

text \<open>
  The identifier in words: the text after the first \<open>(\<close> of the header, up to the
  next parenthesis of either kind or to the end of the header.
\<close>

definition after_first_paren :: "string \<Rightarrow> string" where
  "after_first_paren h =
     takeWhile (\<lambda>c. c \<noteq> CHR ''('' \<and> c \<noteq> CHR '')'')
       (tl (dropWhile (\<lambda>c. c \<noteq> CHR ''('') h))"

text \<open>\<open>post\<close> first stores two headers in the session, so it also returns the client.\<close>

definition post_client :: "DataverseClient \<Rightarrow> DataverseClient" where
  "post_client c =
     c\<lparr> session_headers :=
          hdr_set (hdr_set (session_headers c) ''Content-Type'' ''application/json'')
            ''Prefer'' ''return=representation'' \<rparr>"

definition post_request :: "DataverseClient \<Rightarrow> string \<Rightarrow> json \<Rightarrow> request" where
  "post_request c endpoint data =
     \<lparr> req_method = POST, req_url = api_base c @ ''/'' @ endpoint,
       req_headers = session_headers (post_client c), req_params = None,
       req_json = Some data \<rparr>"

definition post :: "externals \<Rightarrow> DataverseClient \<Rightarrow> string \<Rightarrow> json \<Rightarrow>
    request list \<Rightarrow> (exn + json) \<times> DataverseClient \<times> request list" where
  "post ext c endpoint data sent =
     (let rq = post_request c endpoint data in
      case transport ext sent rq of
        Inl m \<Rightarrow> (Inl (request_failed m), post_client c, sent @ [rq])
      | Inr r \<Rightarrow>
          (if raises_for_status r then (Inl (http_error r), post_client c, sent @ [rq])
           else if status_code r = 204 then
             (let entity_id_header =
                    (case hdr_get (headers r) ''OData-EntityId'' of None \<Rightarrow> [] | Some h \<Rightarrow> h)
              in if entity_id_header \<noteq> [] \<and> py_in ''('' entity_id_header then
                   (case entity_id_of entity_id_header of
                      Inl e \<Rightarrow> (Inl e, post_client c, sent @ [rq])
                    | Inr entity_id \<Rightarrow>
                        (Inr (JObj [(''id'', JStr entity_id)]), post_client c, sent @ [rq]))
                 else (Inr (JObj []), post_client c, sent @ [rq]))
           else (json_or_empty ext r, post_client c, sent @ [rq])))"

definition patch_client :: "DataverseClient \<Rightarrow> DataverseClient" where
  "patch_client c =
     c\<lparr> session_headers := hdr_set (session_headers c) ''Content-Type'' ''application/json'' \<rparr>"

definition patch_request :: "DataverseClient \<Rightarrow> string \<Rightarrow> json \<Rightarrow> request" where
  "patch_request c endpoint data =
     \<lparr> req_method = PATCH, req_url = api_base c @ ''/'' @ endpoint,
       req_headers = session_headers (patch_client c), req_params = None,
       req_json = Some data \<rparr>"

definition patch :: "externals \<Rightarrow> DataverseClient \<Rightarrow> string \<Rightarrow> json \<Rightarrow>
    request list \<Rightarrow> (exn + json) \<times> DataverseClient \<times> request list" where
  "patch ext c endpoint data sent =
     (let rq = patch_request c endpoint data in
      case transport ext sent rq of
        Inl m \<Rightarrow> (Inl (request_failed m), patch_client c, sent @ [rq])
      | Inr r \<Rightarrow>
          (if raises_for_status r then (Inl (http_error r), patch_client c, sent @ [rq])
           else (json_or_empty ext r, patch_client c, sent @ [rq])))"

text \<open>\<open>delete\<close> returns \<open>None\<close> when it does not raise.\<close>

definition delete_request :: "DataverseClient \<Rightarrow> string \<Rightarrow> request" where
  "delete_request c endpoint =
     \<lparr> req_method = DELETE, req_url = api_base c @ ''/'' @ endpoint,
       req_headers = session_headers c, req_params = None, req_json = None \<rparr>"

definition delete :: "externals \<Rightarrow> DataverseClient \<Rightarrow> string \<Rightarrow>
    request list \<Rightarrow> (exn + json) \<times> request list" where
  "delete ext c endpoint sent =
     (let rq = delete_request c endpoint in
      case transport ext sent rq of
        Inl m \<Rightarrow> (Inl (request_failed m), sent @ [rq])
      | Inr r \<Rightarrow>
          (if raises_for_status r then (Inl (http_error r), sent @ [rq])
           else (Inr JNull, sent @ [rq])))"

text \<open>
  A call of one of the four methods, the request it issues, and a sequence of calls on
  one client: each call sees the client as the calls before it left it. An exception
  ends a call, not the sequence (the caller catches it).
\<close>

datatype api_call =
    Get string "(string \<times> string) list option"
  | Post string json
  | Patch string json
  | Delete string

fun request_of :: "DataverseClient \<Rightarrow> api_call \<Rightarrow> request" where
  "request_of c (Get endpoint params) = get_request c endpoint params"
| "request_of c (Post endpoint data) = post_request c endpoint data"
| "request_of c (Patch endpoint data) = patch_request c endpoint data"
| "request_of c (Delete endpoint) = delete_request c endpoint"

fun perform :: "externals \<Rightarrow> DataverseClient \<Rightarrow> api_call \<Rightarrow> request list \<Rightarrow>
    (exn + json) \<times> DataverseClient \<times> request list" where
  "perform ext c (Get endpoint params) sent =
     (case get ext c endpoint params sent of (res, sent') \<Rightarrow> (res, c, sent'))"
| "perform ext c (Post endpoint data) sent = post ext c endpoint data sent"
| "perform ext c (Patch endpoint data) sent = patch ext c endpoint data sent"
| "perform ext c (Delete endpoint) sent =
     (case delete ext c endpoint sent of (res, sent') \<Rightarrow> (res, c, sent'))"

fun perform_all :: "externals \<Rightarrow> DataverseClient \<Rightarrow> api_call list \<Rightarrow> request list \<Rightarrow>
    DataverseClient \<times> request list" where
  "perform_all ext c [] sent = (c, sent)"
| "perform_all ext c (call # calls) sent =
     (case perform ext c call sent of (res, c', sent') \<Rightarrow> perform_all ext c' calls sent')"

text \<open>
  \<open>delete_connector.py\<close>, lines 58 to 59: the dependency check on the text of a
  caught \<open>ClientError\<close>.
\<close>

definition is_dependency_error :: "exn \<Rightarrow> bool" where
  "is_dependency_error e = py_in ''referenced by'' (lower (exn_str e))"


section \<open>client.py: the client factory\<close>

text \<open>
  MSAL is a parameter. Constructing an application and acquiring a token are calls
  of \<open>identity_provider\<close>, which sees the calls made so far; \<open>Inl m\<close> is an exception
  raised inside the library with text \<open>m\<close>, \<open>Inr d\<close> the dictionary returned (for a
  constructor, its content is not looked at). The calls are logged: they are the
  authentication round trips.
\<close>

definition token_error :: "(string \<times> string) list \<Rightarrow> string" where
  "token_error result =
     (case map_of result ''error_description'' of
        Some d \<Rightarrow> d
      | None \<Rightarrow> (case map_of result ''error'' of Some e \<Rightarrow> e | None \<Rightarrow> ''Unknown error''))"

definition get_service_principal_token :: "externals \<Rightarrow> Config \<Rightarrow> idp_request list \<Rightarrow>
    (exn + string) \<times> idp_request list" where
  "get_service_principal_token ext config calls =
     (let authority = ''https://login.microsoftonline.com/'' @ fmt_opt (tenant_id config);
          app = ConfidentialClientApplication (client_id config) authority (client_secret config)
      in case identity_provider ext calls app of
           Inl m \<Rightarrow> (Inl (LibraryError m), calls @ [app])
         | Inr made \<Rightarrow>
             (case get_auth_scope config of
                Inl m \<Rightarrow> (Inl (ValueError m), calls @ [app])
              | Inr scope \<Rightarrow>
                  (let acquire = Acquire_token_for_client [scope]
                   in case identity_provider ext (calls @ [app]) acquire of
                        Inl m \<Rightarrow> (Inl (LibraryError m), calls @ [app, acquire])
                      | Inr result \<Rightarrow>
                          (case map_of result ''access_token'' of
                             None \<Rightarrow>
                               (Inl (ClientError (''Failed to acquire token: '' @ token_error result)),
                                calls @ [app, acquire])
                           | Some token \<Rightarrow> (Inr token, calls @ [app, acquire])))))"

definition get_user_token :: "externals \<Rightarrow> Config \<Rightarrow> idp_request list \<Rightarrow>
    (exn + string) \<times> idp_request list" where
  "get_user_token ext config calls =
     (let authority = ''https://login.microsoftonline.com/'' @ fmt_opt (tenant_id config);
          app = PublicClientApplication (client_id config) authority
      in case identity_provider ext calls app of
           Inl m \<Rightarrow> (Inl (LibraryError m), calls @ [app])
         | Inr made \<Rightarrow>
             (case get_auth_scope config of
                Inl m \<Rightarrow> (Inl (ValueError m), calls @ [app])
              | Inr scope \<Rightarrow>
                  (let acquire = Acquire_token_by_username_password (username config)
                         (password config) [scope]
                   in case identity_provider ext (calls @ [app]) acquire of
                        Inl m \<Rightarrow> (Inl (LibraryError m), calls @ [app, acquire])
                      | Inr result \<Rightarrow>
                          (case map_of result ''access_token'' of
                             None \<Rightarrow>
                               (Inl (ClientError (''Failed to acquire token: '' @ token_error result)),
                                calls @ [app, acquire])
                           | Some token \<Rightarrow> (Inr token, calls @ [app, acquire])))))"

text \<open>
  The state of the process: the environment, the two module globals \<open>_config\<close> and
  \<open>_client\<close>, the calls made to the identity provider, the requests sent, and what was
  printed.
\<close>

record world =
  environ :: "string \<rightharpoonup> string"
  global_config :: "Config option"
  global_client :: "DataverseClient option"
  idp_calls :: "idp_request list"
  http_sent :: "request list"
  console :: "console_output list"

definition get_config :: "world \<Rightarrow> Config \<times> world" where
  "get_config w =
     (case global_config w of
        None \<Rightarrow> (Config_init (environ w), w\<lparr> global_config := Some (Config_init (environ w)) \<rparr>)
      | Some config \<Rightarrow> (config, w))"

definition reset_config :: "world \<Rightarrow> world" where
  "reset_config w = w\<lparr> global_config := None \<rparr>"

text \<open>The message of lines 234 to 246 for the list of missing variables.\<close>

definition missing_credentials_message :: "string list \<Rightarrow> string" where
  "missing_credentials_message missing =
     ''Missing required Dataverse credentials. Please set the following environment variables:''
     @ [CHR 0x0A, CHR 0x0A]
     @ concat (map (\<lambda>cred. ''  - '' @ cred @ [CHR 0x0A]) missing)
     @ [CHR 0x0A] @ ''For service principal authentication (recommended for CLI):'' @ [CHR 0x0A]
     @ ''  DATAVERSE_URL, DATAVERSE_CLIENT_ID, DATAVERSE_CLIENT_SECRET, DATAVERSE_TENANT_ID''
     @ [CHR 0x0A]
     @ [CHR 0x0A] @ ''For user authentication:'' @ [CHR 0x0A]
     @ ''  DATAVERSE_URL, DATAVERSE_CLIENT_ID, DATAVERSE_TENANT_ID, DATAVERSE_USERNAME, DATAVERSE_PASSWORD''
     @ [CHR 0x0A]
     @ [CHR 0x0A] @ ''For token authentication (if you already have a token):'' @ [CHR 0x0A]
     @ ''  DATAVERSE_URL, DATAVERSE_ACCESS_TOKEN'' @ [CHR 0x0A]"

text \<open>
  \<open>DataverseClient(url, token)\<close> on configuration fields: \<open>url.rstrip\<close> raises
  \<open>AttributeError\<close> when the URL is \<open>None\<close>.
\<close>

definition new_DataverseClient :: "externals \<Rightarrow> string option \<Rightarrow> string option \<Rightarrow>
    exn + DataverseClient" where
  "new_DataverseClient ext url token =
     (case url of
        None \<Rightarrow>
          Inl (AttributeError
                 ([CHR 0x27] @ ''NoneType'' @ [CHR 0x27] @ '' object has no attribute '' @
                  [CHR 0x27] @ ''rstrip'' @ [CHR 0x27]))
      | Some u \<Rightarrow> Inr (DataverseClient_init ext u token))"

text \<open>Lines 229 to 274 of \<open>get_client\<close>: what happens when nothing is cached.\<close>

definition create_client :: "externals \<Rightarrow> world \<Rightarrow> (exn + DataverseClient) \<times> world" where
  "create_client ext w =
     (case get_config w of
        (config, w1) \<Rightarrow>
          (let missing = get_missing_credentials config in
           if missing \<noteq> [] then
             (Inl (ClientError (missing_credentials_message missing)), w1)
           else if has_token_auth config then
             (case new_DataverseClient ext (Config.dataverse_url config)
                     (Config.access_token config) of
                Inl e \<Rightarrow> (Inl e, w1)
              | Inr c \<Rightarrow> (Inr c, w1\<lparr> global_client := Some c \<rparr>))
           else if has_service_principal_auth config then
             (case get_service_principal_token ext config (idp_calls w1) of
                (Inl e, calls) \<Rightarrow>
                  (Inl (ClientError
                     (''Failed to authenticate with service principal: '' @ exn_str e)),
                   w1\<lparr> idp_calls := calls \<rparr>)
              | (Inr token, calls) \<Rightarrow>
                  (case new_DataverseClient ext (Config.dataverse_url config) (Some token) of
                     Inl e \<Rightarrow>
                       (Inl (ClientError
                          (''Failed to authenticate with service principal: '' @ exn_str e)),
                        w1\<lparr> idp_calls := calls \<rparr>)
                   | Inr c \<Rightarrow> (Inr c, w1\<lparr> idp_calls := calls, global_client := Some c \<rparr>)))
           else if has_user_auth config then
             (case get_user_token ext config (idp_calls w1) of
                (Inl e, calls) \<Rightarrow>
                  (Inl (ClientError
                     (''Failed to authenticate with user credentials: '' @ exn_str e)),
                   w1\<lparr> idp_calls := calls \<rparr>)
              | (Inr token, calls) \<Rightarrow>
                  (case new_DataverseClient ext (Config.dataverse_url config) (Some token) of
                     Inl e \<Rightarrow>
                       (Inl (ClientError
                          (''Failed to authenticate with user credentials: '' @ exn_str e)),
                        w1\<lparr> idp_calls := calls \<rparr>)
                   | Inr c \<Rightarrow> (Inr c, w1\<lparr> idp_calls := calls, global_client := Some c \<rparr>)))
           else (Inl (ClientError ''No valid authentication method available''), w1)))"

definition get_client :: "externals \<Rightarrow> world \<Rightarrow> (exn + DataverseClient) \<times> world" where
  "get_client ext w =
     (case global_client w of
        Some c \<Rightarrow> (Inr c, w)
      | None \<Rightarrow> create_client ext w)"

definition reset_client :: "world \<Rightarrow> world" where
  "reset_client w = w\<lparr> global_client := None \<rparr>"


section \<open>Decoded values in the commands\<close>

definition py_type_name :: "json \<Rightarrow> string" where
  "py_type_name j =
     (case j of
        JNull \<Rightarrow> ''NoneType'' | JBool b \<Rightarrow> ''bool'' | JInt i \<Rightarrow> ''int'' | JFloat q \<Rightarrow> ''float''
      | JStr s \<Rightarrow> ''str'' | JArr xs \<Rightarrow> ''list'' | JObj kvs \<Rightarrow> ''dict'')"

definition quoted :: "string \<Rightarrow> string" where
  "quoted s = [CHR 0x27] @ s @ [CHR 0x27]"

definition no_attribute :: "json \<Rightarrow> string \<Rightarrow> exn" where
  "no_attribute j attr =
     AttributeError (quoted (py_type_name j) @ '' object has no attribute '' @ quoted attr)"

text \<open>\<open>x.get(key)\<close>: only a dictionary has \<open>get\<close>; a missing key gives \<open>None\<close>.\<close>

definition dict_get :: "json \<Rightarrow> string \<Rightarrow> exn + json" where
  "dict_get j key =
     (case j of
        JObj kvs \<Rightarrow> Inr (case map_of kvs key of None \<Rightarrow> JNull | Some v \<Rightarrow> v)
      | _ \<Rightarrow> Inl (no_attribute j ''get''))"

text \<open>\<open>d[key] = v\<close> on a dictionary: an entry that is there keeps its place.\<close>

fun dict_set :: "(string \<times> json) list \<Rightarrow> string \<Rightarrow> json \<Rightarrow> (string \<times> json) list" where
  "dict_set [] k v = [(k, v)]"
| "dict_set ((k', v') # kvs) k v =
     (if k' = k then (k, v) # kvs else (k', v') # dict_set kvs k v)"

text \<open>\<open>for x in j\<close>: the elements of a list, the keys of a dictionary, the characters of
  a string; anything else is not iterable.\<close>

definition py_iter :: "json \<Rightarrow> exn + json list" where
  "py_iter j =
     (case j of
        JArr xs \<Rightarrow> Inr xs
      | JObj kvs \<Rightarrow> Inr (map (\<lambda>kv. JStr (fst kv)) kvs)
      | JStr s \<Rightarrow> Inr (map (\<lambda>c. JStr [c]) s)
      | _ \<Rightarrow> Inl (TypeError (quoted (py_type_name j) @ '' object is not iterable'')))"

text \<open>\<open>j[0]\<close>.\<close>

definition subscript0 :: "json \<Rightarrow> exn + json" where
  "subscript0 j =
     (case j of
        JArr xs \<Rightarrow> (case xs of [] \<Rightarrow> Inl (IndexError ''list index out of range'') | x # _ \<Rightarrow> Inr x)
      | JStr s \<Rightarrow>
          (case s of [] \<Rightarrow> Inl (IndexError ''string index out of range'') | c # _ \<Rightarrow> Inr (JStr [c]))
      | JObj kvs \<Rightarrow> Inl (KeyError ''0'')
      | _ \<Rightarrow> Inl (TypeError (quoted (py_type_name j) @ '' object is not subscriptable'')))"

definition is_list :: "json \<Rightarrow> bool" where
  "is_list j = (case j of JArr xs \<Rightarrow> True | _ \<Rightarrow> False)"

text \<open>A value inside an f-string: a string as it is, anything else through \<open>str()\<close>.\<close>

definition fmt_json :: "externals \<Rightarrow> json \<Rightarrow> string" where
  "fmt_json ext j = (case j of JStr s \<Rightarrow> s | _ \<Rightarrow> py_str ext j)"

fun join :: "string \<Rightarrow> string list \<Rightarrow> string" where
  "join sep [] = []"
| "join sep [x] = x"
| "join sep (x # y # ys) = x @ sep @ join sep (y # ys)"

section \<open>The commands\<close>

text \<open>
  \<open>print_json\<close>, \<open>print_table\<close> and \<open>typer.echo(..., err=True)\<close> append to the
  console. A command returns \<open>None\<close> when it returns normally and \<open>Some code\<close> when it
  leaves through \<open>typer.Exit(code)\<close>. Every command is one \<open>try\<close> whose
  \<open>except Exception\<close> hands the exception to \<open>handle_api_error\<close> and exits with the
  code that returns.
\<close>

definition echo :: "console_output \<Rightarrow> world \<Rightarrow> world" where
  "echo out w = w\<lparr> console := console w @ [out] \<rparr>"

definition except_exit :: "externals \<Rightarrow> (exn + unit) \<times> world \<Rightarrow> nat option \<times> world" where
  "except_exit ext outcome =
     (case outcome of
        (Inr u, w) \<Rightarrow> (None, w)
      | (Inl e, w) \<Rightarrow>
          (case handle_api_error ext e of
             (printed, exit_code) \<Rightarrow> (Some exit_code, w\<lparr> console := console w @ printed \<rparr>)))"

subsection \<open>Showing a list of flows\<close>

text \<open>
  The end of both listings: with \<open>--table\<close> and a list, every flow gets its \<open>state\<close>
  and the table is printed; otherwise the value is printed as JSON.
\<close>

definition with_state :: "externals \<Rightarrow> json \<Rightarrow> exn + json" where
  "with_state ext flow =
     (case flow of
        JObj kvs \<Rightarrow>
          Inr (JObj (dict_set kvs ''state''
                 (JStr (if py_eq ext (case map_of kvs ''statecode'' of None \<Rightarrow> JNull | Some v \<Rightarrow> v)
                              (JInt 1)
                        then ''Activated'' else ''Draft''))))
      | _ \<Rightarrow> Inl (no_attribute flow ''get''))"

fun with_states :: "externals \<Rightarrow> json list \<Rightarrow> exn + json list" where
  "with_states ext [] = Inr []"
| "with_states ext (flow # flows) =
     (case with_state ext flow of
        Inl e \<Rightarrow> Inl e
      | Inr flow' \<Rightarrow>
          (case with_states ext flows of
             Inl e \<Rightarrow> Inl e
           | Inr flows' \<Rightarrow> Inr (flow' # flows')))"

definition flow_columns :: "string list" where
  "flow_columns = [''name'', ''workflowid'', ''state'', ''modifiedon'']"

definition show_flows :: "externals \<Rightarrow> bool \<Rightarrow> json \<Rightarrow> world \<Rightarrow> (exn + unit) \<times> world" where
  "show_flows ext table_format flows w =
     (case flows of
        JArr fl \<Rightarrow>
          (if table_format then
             (case with_states ext fl of
                Inl e \<Rightarrow> (Inl e, w)
              | Inr rows \<Rightarrow> (Inr (), echo (Print_table (JArr rows) flow_columns) w))
           else (Inr (), echo (Print_json flows) w))
      | _ \<Rightarrow> (Inr (), echo (Print_json flows) w))"

subsection \<open>commands/solution.py: list_solution_flows\<close>

text \<open>Lines 158 to 171: the solution id, from \<open>--id\<close> or looked up by \<open>--name\<close>.\<close>

definition solution_lookup_params :: "string \<Rightarrow> (string \<times> string) list" where
  "solution_lookup_params name =
     [(''$filter'', ''friendlyname eq '' @ quoted name), (''$select'', ''solutionid'')]"

definition resolve_solution_id :: "externals \<Rightarrow> DataverseClient \<Rightarrow> string option \<Rightarrow>
    string option \<Rightarrow> world \<Rightarrow> (exn + json) \<times> world" where
  "resolve_solution_id ext client solution_id name w =
     (case (if present name \<and> \<not> present solution_id then
              (case get ext client ''solutions'' (Some (solution_lookup_params (fmt_opt name)))
                      (http_sent w) of
                 (Inl e, sent) \<Rightarrow> (Inl e, w\<lparr> http_sent := sent \<rparr>)
               | (Inr result, sent) \<Rightarrow>
                   (let solutions = format_response ext result in
                    if is_list solutions \<and> truthy solutions then
                      (case subscript0 solutions of
                         Inl e \<Rightarrow> (Inl e, w\<lparr> http_sent := sent \<rparr>)
                       | Inr first \<Rightarrow>
                           (case dict_get first ''solutionid'' of
                              Inl e \<Rightarrow> (Inl e, w\<lparr> http_sent := sent \<rparr>)
                            | Inr sid \<Rightarrow> (Inr sid, w\<lparr> http_sent := sent \<rparr>)))
                    else
                      (Inl (TyperExit 1),
                       echo (Echo_err (''Error: Solution '' @ quoted (fmt_opt name) @ '' not found''))
                         (w\<lparr> http_sent := sent \<rparr>))))
            else (Inr (case solution_id of None \<Rightarrow> JNull | Some s \<Rightarrow> JStr s), w)) of
        (Inl e, w1) \<Rightarrow> (Inl e, w1)
      | (Inr sid, w1) \<Rightarrow>
          (if \<not> truthy sid then
             (Inl (TyperExit 1),
              echo (Echo_err ''Error: Either --id or --name must be provided'') w1)
           else (Inr sid, w1)))"

text \<open>Lines 173 to 202: the two queries.\<close>

definition component_params :: "externals \<Rightarrow> json \<Rightarrow> (string \<times> string) list" where
  "component_params ext solution_id =
     [(''$filter'', ''_solutionid_value eq '' @ fmt_json ext solution_id @ '' and componenttype eq 29''),
      (''$select'', ''objectid'')]"

fun object_ids :: "json list \<Rightarrow> exn + json list" where
  "object_ids [] = Inr []"
| "object_ids (component # components) =
     (case dict_get component ''objectid'' of
        Inl e \<Rightarrow> Inl e
      | Inr v \<Rightarrow>
          (case object_ids components of
             Inl e \<Rightarrow> Inl e
           | Inr vs \<Rightarrow> Inr (if truthy v then v # vs else vs)))"

definition workflow_ids_of :: "json \<Rightarrow> exn + json list" where
  "workflow_ids_of components =
     (case py_iter components of
        Inl e \<Rightarrow> Inl e
      | Inr comps \<Rightarrow> object_ids comps)"

definition workflows_params :: "externals \<Rightarrow> json list \<Rightarrow> (string \<times> string) list" where
  "workflows_params ext workflow_ids =
     [(''$filter'', ''category eq 5 and ('' @
         join '' or '' (map (\<lambda>wid. ''workflowid eq '' @ fmt_json ext wid) workflow_ids) @ '')''),
      (''$select'', ''workflowid,name,statecode,createdon,modifiedon''),
      (''$orderby'', ''modifiedon desc'')]"

definition fetch_solution_flows :: "externals \<Rightarrow> DataverseClient \<Rightarrow> json \<Rightarrow> world \<Rightarrow>
    (exn + json) \<times> world" where
  "fetch_solution_flows ext client solution_id w =
     (case get ext client ''solutioncomponents'' (Some (component_params ext solution_id))
             (http_sent w) of
        (Inl e, sent) \<Rightarrow> (Inl e, w\<lparr> http_sent := sent \<rparr>)
      | (Inr component_result, sent) \<Rightarrow>
          (let components = format_response ext component_result in
           if \<not> truthy components then (Inr (JArr []), w\<lparr> http_sent := sent \<rparr>)
           else
             (case workflow_ids_of components of
                Inl e \<Rightarrow> (Inl e, w\<lparr> http_sent := sent \<rparr>)
              | Inr workflow_ids \<Rightarrow>
                  (if workflow_ids = [] then (Inr (JArr []), w\<lparr> http_sent := sent \<rparr>)
                   else
                     (case get ext client ''workflows'' (Some (workflows_params ext workflow_ids))
                             sent of
                        (Inl e, sent') \<Rightarrow> (Inl e, w\<lparr> http_sent := sent' \<rparr>)
                      | (Inr result, sent') \<Rightarrow>
                          (Inr (format_response ext result), w\<lparr> http_sent := sent' \<rparr>))))))"

definition list_solution_flows_try :: "externals \<Rightarrow> string option \<Rightarrow> string option \<Rightarrow> bool \<Rightarrow>
    world \<Rightarrow> (exn + unit) \<times> world" where
  "list_solution_flows_try ext solution_id name table_format w =
     (case get_client ext w of
        (Inl e, w1) \<Rightarrow> (Inl e, w1)
      | (Inr client, w1) \<Rightarrow>
          (case resolve_solution_id ext client solution_id name w1 of
             (Inl e, w2) \<Rightarrow> (Inl e, w2)
           | (Inr sid, w2) \<Rightarrow>
               (case fetch_solution_flows ext client sid w2 of
                  (Inl e, w3) \<Rightarrow> (Inl e, w3)
                | (Inr flows, w3) \<Rightarrow> show_flows ext table_format flows w3)))"

definition list_solution_flows :: "externals \<Rightarrow> string option \<Rightarrow> string option \<Rightarrow> bool \<Rightarrow>
    world \<Rightarrow> nat option \<times> world" where
  "list_solution_flows ext solution_id name table_format w =
     except_exit ext (list_solution_flows_try ext solution_id name table_format w)"

text \<open>A request to the \<open>workflows\<close> endpoint of the client.\<close>

definition is_workflows_query :: "DataverseClient \<Rightarrow> request \<Rightarrow> bool" where
  "is_workflows_query c rq = (req_url rq = api_base c @ ''/workflows'')"

subsection \<open>commands/flow.py: list_flows\<close>

definition flow_params :: "string option \<Rightarrow> (string \<times> string) list" where
  "flow_params state =
     [(''$filter'',
         join '' and ''
           ([''category eq 5''] @
            (if present state then
               [''statecode eq '' @
                  str_nat (if lower (fmt_opt state) = ''activated'' then 1 else 0)]
             else []))),
      (''$select'', ''workflowid,name,statecode,statuscode,createdon,modifiedon,solutionid''),
      (''$orderby'', ''modifiedon desc'')]"

text \<open>Line 63: the flows whose \<open>solutionid\<close> equals the id looked up.\<close>

fun flows_of_solution :: "externals \<Rightarrow> json \<Rightarrow> json list \<Rightarrow> exn + json list" where
  "flows_of_solution ext solution_id [] = Inr []"
| "flows_of_solution ext solution_id (f # fs) =
     (case dict_get f ''solutionid'' of
        Inl e \<Rightarrow> Inl e
      | Inr v \<Rightarrow>
          (case flows_of_solution ext solution_id fs of
             Inl e \<Rightarrow> Inl e
           | Inr kept \<Rightarrow> Inr (if py_eq ext v solution_id then f # kept else kept)))"

text \<open>Lines 54 to 63: the filter by solution name, on the flows already fetched.\<close>

definition filter_by_solution :: "externals \<Rightarrow> DataverseClient \<Rightarrow> string option \<Rightarrow> json \<Rightarrow>
    world \<Rightarrow> (exn + json) \<times> world" where
  "filter_by_solution ext client solution flows w =
     (case flows of
        JArr fl \<Rightarrow>
          (if present solution then
             (case get ext client ''solutions'' (Some (solution_lookup_params (fmt_opt solution)))
                     (http_sent w) of
                (Inl e, sent) \<Rightarrow> (Inl e, w\<lparr> http_sent := sent \<rparr>)
              | (Inr solution_result, sent) \<Rightarrow>
                  (let solutions = format_response ext solution_result in
                   if truthy solutions then
                     (case subscript0 solutions of
                        Inl e \<Rightarrow> (Inl e, w\<lparr> http_sent := sent \<rparr>)
                      | Inr first \<Rightarrow>
                          (case dict_get first ''solutionid'' of
                             Inl e \<Rightarrow> (Inl e, w\<lparr> http_sent := sent \<rparr>)
                           | Inr solution_id \<Rightarrow>
                               (case flows_of_solution ext solution_id fl of
                                  Inl e \<Rightarrow> (Inl e, w\<lparr> http_sent := sent \<rparr>)
                                | Inr kept \<Rightarrow> (Inr (JArr kept), w\<lparr> http_sent := sent \<rparr>))))
                   else (Inr flows, w\<lparr> http_sent := sent \<rparr>)))
           else (Inr flows, w))
      | _ \<Rightarrow> (Inr flows, w))"

definition list_flows_try :: "externals \<Rightarrow> string option \<Rightarrow> string option \<Rightarrow> bool \<Rightarrow>
    world \<Rightarrow> (exn + unit) \<times> world" where
  "list_flows_try ext solution state table_format w =
     (case get_client ext w of
        (Inl e, w1) \<Rightarrow> (Inl e, w1)
      | (Inr client, w1) \<Rightarrow>
          (case get ext client ''workflows'' (Some (flow_params state)) (http_sent w1) of
             (Inl e, sent) \<Rightarrow> (Inl e, w1\<lparr> http_sent := sent \<rparr>)
           | (Inr result, sent) \<Rightarrow>
               (case filter_by_solution ext client solution (format_response ext result)
                       (w1\<lparr> http_sent := sent \<rparr>) of
                  (Inl e, w2) \<Rightarrow> (Inl e, w2)
                | (Inr flows, w2) \<Rightarrow> show_flows ext table_format flows w2)))"

definition list_flows :: "externals \<Rightarrow> string option \<Rightarrow> string option \<Rightarrow> bool \<Rightarrow>
    world \<Rightarrow> nat option \<times> world" where
  "list_flows ext solution state table_format w =
     except_exit ext (list_flows_try ext solution state table_format w)"


section \<open>A test double\<close>

text \<open>
  Modelled from the spec: \<open>format_response\<close> of \<open>output.py\<close>, which is not among the
  sources. The specification says that Dataverse's list wrapper \<open>{"value": [...]}\<close> is
  unwrapped to the plain list before a command sees it, and that any other value is
  handed on as it is.
\<close>

definition format_response_spec :: "json \<Rightarrow> json" where
  "format_response_spec j =
     (case j of
        JObj kvs \<Rightarrow> (case map_of kvs ''value'' of Some (JArr xs) \<Rightarrow> JArr xs | _ \<Rightarrow> j)
      | _ \<Rightarrow> j)"

text \<open>
  Concrete surroundings for the examples: a network that answers every request by
  \<open>net\<close>, a decoder \<open>dec\<close>, an identity provider \<open>idp\<close>; the session defaults are those
  of a current \<open>requests\<close>.
\<close>

definition test_double :: "(request \<Rightarrow> string + response) \<Rightarrow> (string \<Rightarrow> string + json) \<Rightarrow>
    (idp_request \<Rightarrow> string + (string \<times> string) list) \<Rightarrow> externals" where
  "test_double net dec idp =
     \<lparr> default_headers =
         [(''User-Agent'', ''python-requests/2.32.3''), (''Accept-Encoding'', ''gzip, deflate''),
          (''Accept'', ''*/*''), (''Connection'', ''keep-alive'')],
       transport = (\<lambda>sent. net),
       json_decode = dec,
       identity_provider = (\<lambda>calls. idp),
       format_response = format_response_spec,
       handle_api_error = (\<lambda>e. ([Echo_err (exn_str e)], 1)),
       py_str = (\<lambda>j. case j of JStr s \<Rightarrow> s | _ \<Rightarrow> ''None''),
       py_eq = (\<lambda>a b. a = b) \<rparr>"

definition answer :: "nat \<Rightarrow> string \<Rightarrow> (string \<times> string) list \<Rightarrow> request \<Rightarrow> string + response" where
  "answer code body hs rq = Inr \<lparr> status_code = code, body_text = body, headers = hs \<rparr>"

definition no_json :: "string \<Rightarrow> string + json" where
  "no_json s = Inl ''Expecting value: line 1 column 1 (char 0)''"

definition no_idp :: "idp_request \<Rightarrow> string + (string \<times> string) list" where
  "no_idp rq = Inl ''unreachable''"

definition example_client :: "externals \<Rightarrow> DataverseClient" where
  "example_client ext = DataverseClient_init ext ''https://org.crm.dynamics.com/'' (Some ''tok'')"

text \<open>The bodies and headers of the examples.\<close>

definition not_found_body :: string where
  \<open>not_found_body = ''{"error":{"message":"Not Found"}}''\<close>

definition dependency_body :: string where
  \<open>dependency_body = ''{"error":{"message":"The connector is Referenced By 1 flow"}}''\<close>

definition entity_id_example :: string where
  "entity_id_example =
     ''https://org.crm.dynamics.com/api/data/v9.2/workflows(29e2253b-cabc-f011-bbd3-000d3a8ba54e)''"

definition entity_id_truncated :: string where
  "entity_id_truncated = ''https://org.crm.dynamics.com/api/data/v9.2/workflows(29e2253b''"

text \<open>A process that has not yet read its environment, and some environments.\<close>

definition fresh_world :: "(string \<rightharpoonup> string) \<Rightarrow> world" where
  "fresh_world env =
     \<lparr> environ = env, global_config = None, global_client = None, idp_calls = [],
       http_sent = [], console = [] \<rparr>"

definition service_principal_env :: "string \<rightharpoonup> string" where
  "service_principal_env =
     [''DATAVERSE_URL'' \<mapsto> ''https://org.crm.dynamics.com'',
      ''DATAVERSE_CLIENT_ID'' \<mapsto> ''app'', ''DATAVERSE_CLIENT_SECRET'' \<mapsto> ''secret'',
      ''DATAVERSE_TENANT_ID'' \<mapsto> ''tenant'']"

definition user_env :: "string \<rightharpoonup> string" where
  "user_env =
     [''DATAVERSE_URL'' \<mapsto> ''https://org.crm.dynamics.com'',
      ''DATAVERSE_CLIENT_ID'' \<mapsto> ''app'', ''DATAVERSE_TENANT_ID'' \<mapsto> ''tenant'',
      ''DATAVERSE_USERNAME'' \<mapsto> ''user'', ''DATAVERSE_PASSWORD'' \<mapsto> ''pw'']"

definition token_env :: "string \<rightharpoonup> string" where
  "token_env =
     [''DATAVERSE_URL'' \<mapsto> ''https://org.crm.dynamics.com'',
      ''DATAVERSE_ACCESS_TOKEN'' \<mapsto> ''tok'']"

definition granting_idp :: "idp_request \<Rightarrow> string + (string \<times> string) list" where
  "granting_idp rq = Inr [(''access_token'', ''abc''), (''token_type'', ''Bearer'')]"

definition refusing_idp :: "idp_request \<Rightarrow> string + (string \<times> string) list" where
  "refusing_idp rq =
     (case rq of
        Acquire_token_for_client scopes \<Rightarrow>
          Inr [(''error'', ''invalid_client''), (''error_description'', ''AADSTS7000215: Invalid client secret'')]
      | Acquire_token_by_username_password u p scopes \<Rightarrow>
          Inr [(''error'', ''invalid_grant'')]
      | _ \<Rightarrow> Inr [])"

text \<open>
  A Dataverse that knows two flows and no solution by the name asked for; the solution
  \<open>s1\<close> has no component of type 29, the solution \<open>s2\<close> has one whose \<open>objectid\<close> is
  null.
\<close>

definition empty_list_body :: string where
  \<open>empty_list_body = ''{"value":[]}''\<close>

definition orphan_body :: string where
  \<open>orphan_body = ''{"value":[{"objectid":null}]}''\<close>

definition flows_body :: string where
  \<open>flows_body = ''{"value":[{"name":"A","statecode":1},{"name":"B","statecode":0}]}''\<close>

definition dataverse_net :: "request \<Rightarrow> string + response" where
  "dataverse_net rq =
     (if req_url rq = ''https://org.crm.dynamics.com/api/data/v9.2/workflows''
      then answer 200 flows_body [] rq
      else if req_url rq = ''https://org.crm.dynamics.com/api/data/v9.2/solutioncomponents''
      then (if req_params rq =
                 Some [(''$filter'', ''_solutionid_value eq s2 and componenttype eq 29''),
                       (''$select'', ''objectid'')]
            then answer 200 orphan_body [] rq
            else answer 200 empty_list_body [] rq)
      else if req_url rq = ''https://org.crm.dynamics.com/api/data/v9.2/solutions''
      then answer 200 empty_list_body [] rq
      else answer 404 [] [] rq)"

definition dataverse_json :: "string \<Rightarrow> string + json" where
  "dataverse_json s =
     (if s = empty_list_body then Inr (JObj [(''value'', JArr [])])
      else if s = orphan_body then Inr (JObj [(''value'', JArr [JObj [(''objectid'', JNull)]])])
      else if s = flows_body then
        Inr (JObj [(''value'',
               JArr [JObj [(''name'', JStr ''A''), (''statecode'', JInt 1)],
                     JObj [(''name'', JStr ''B''), (''statecode'', JInt 0)]])])
      else no_json s)"

definition dataverse_double :: externals where
  "dataverse_double = test_double dataverse_net dataverse_json no_idp"

definition token_client :: DataverseClient where
  "token_client = DataverseClient_init dataverse_double ''https://org.crm.dynamics.com'' (Some ''tok'')"

definition token_world :: world where
  "token_world =
     (fresh_world token_env)
       \<lparr> global_config := Some (Config_init token_env), global_client := Some token_client \<rparr>"


section \<open>Configuration resolver\<close>

text \<open>
  C5: whenever the access token and the base URL are both non-empty, token
  authentication is available and no credential is reported missing, whatever the
  other fields hold.
\<close>

theorem token_auth_sufficient:
  assumes "present (Config.access_token c)" and "present (Config.dataverse_url c)"
  shows "has_token_auth c \<and> get_missing_credentials c = []"
  using assms by (simp add: has_token_auth_def get_missing_credentials_def)

theorem token_auth_sufficient_witness:
  "present (Config.access_token (Config_init [''DATAVERSE_URL'' \<mapsto> ''https://org.crm.dynamics.com'',
        ''DATAVERSE_ACCESS_TOKEN'' \<mapsto> ''tok'']))
   \<and> has_token_auth (Config_init [''DATAVERSE_URL'' \<mapsto> ''https://org.crm.dynamics.com'',
        ''DATAVERSE_ACCESS_TOKEN'' \<mapsto> ''tok''])
   \<and> get_missing_credentials (Config_init [''DATAVERSE_URL'' \<mapsto> ''https://org.crm.dynamics.com'',
        ''DATAVERSE_ACCESS_TOKEN'' \<mapsto> ''tok'']) = []
   \<and> \<not> has_service_principal_auth (Config_init [''DATAVERSE_URL'' \<mapsto> ''https://org.crm.dynamics.com'',
        ''DATAVERSE_ACCESS_TOKEN'' \<mapsto> ''tok''])"
  using token_auth_sufficient [of "Config_init [''DATAVERSE_URL'' \<mapsto> ''https://org.crm.dynamics.com'',
        ''DATAVERSE_ACCESS_TOKEN'' \<mapsto> ''tok'']"]
  by (simp add: Config_init_def present_def has_service_principal_auth_def)

text \<open>
  C6: for a configuration without an access token, the missing credentials are
  exactly the absent variables of the service-principal set, in its order; the user
  name and the password are never reported, also when they are the ones absent or
  when the configuration is complete for user authentication.
\<close>

theorem missing_is_absent_service_principal_vars:
  assumes "\<not> present (Config.access_token c)"
  shows "get_missing_credentials c = absent_vars c service_principal_vars"
  using assms
  by (simp add: get_missing_credentials_def absent_vars_def service_principal_vars_def
      field_of_var_def)

theorem missing_is_absent_service_principal_vars_witness:
  "\<not> present (Config.access_token (Config_init [''DATAVERSE_URL'' \<mapsto> ''https://org.crm.dynamics.com'',
        ''DATAVERSE_CLIENT_ID'' \<mapsto> ''app'', ''DATAVERSE_TENANT_ID'' \<mapsto> ''tenant'',
        ''DATAVERSE_USERNAME'' \<mapsto> ''user'', ''DATAVERSE_PASSWORD'' \<mapsto> ''pw'']))
   \<and> has_user_auth (Config_init [''DATAVERSE_URL'' \<mapsto> ''https://org.crm.dynamics.com'',
        ''DATAVERSE_CLIENT_ID'' \<mapsto> ''app'', ''DATAVERSE_TENANT_ID'' \<mapsto> ''tenant'',
        ''DATAVERSE_USERNAME'' \<mapsto> ''user'', ''DATAVERSE_PASSWORD'' \<mapsto> ''pw''])
   \<and> get_missing_credentials (Config_init [''DATAVERSE_URL'' \<mapsto> ''https://org.crm.dynamics.com'',
        ''DATAVERSE_CLIENT_ID'' \<mapsto> ''app'', ''DATAVERSE_TENANT_ID'' \<mapsto> ''tenant'',
        ''DATAVERSE_USERNAME'' \<mapsto> ''user'', ''DATAVERSE_PASSWORD'' \<mapsto> ''pw''])
       = [''DATAVERSE_CLIENT_SECRET'']"
  using missing_is_absent_service_principal_vars [of "Config_init [''DATAVERSE_URL'' \<mapsto> ''https://org.crm.dynamics.com'',
        ''DATAVERSE_CLIENT_ID'' \<mapsto> ''app'', ''DATAVERSE_TENANT_ID'' \<mapsto> ''tenant'',
        ''DATAVERSE_USERNAME'' \<mapsto> ''user'', ''DATAVERSE_PASSWORD'' \<mapsto> ''pw'']"]
  by (simp add: Config_init_def present_def has_user_auth_def absent_vars_def
      service_principal_vars_def field_of_var_def)

section \<open>Strings and header dictionaries\<close>

lemma is_prefix_iff: "is_prefix s t \<longleftrightarrow> (\<exists>b. t = s @ b)"
  by (induction s t rule: is_prefix.induct) auto

lemma py_in_iff: "py_in s t \<longleftrightarrow> (\<exists>a b. t = a @ s @ b)"
proof (induction t)
  case Nil
  then show ?case by auto
next
  case (Cons c t)
  show ?case
  proof
    assume "py_in s (c # t)"
    then consider "is_prefix s (c # t)" | "py_in s t" by auto
    then show "\<exists>a b. c # t = a @ s @ b"
    proof cases
      case 1
      then obtain b where "c # t = s @ b" by (auto simp: is_prefix_iff)
      then have "c # t = [] @ s @ b" by simp
      then show ?thesis by blast
    next
      case 2
      then obtain a b where "t = a @ s @ b" using Cons.IH by auto
      then have "c # t = (c # a) @ s @ b" by simp
      then show ?thesis by blast
    qed
  next
    assume "\<exists>a b. c # t = a @ s @ b"
    then obtain a b where ab: "c # t = a @ s @ b" by auto
    show "py_in s (c # t)"
    proof (cases a)
      case Nil
      with ab have "is_prefix s (c # t)" by (auto simp: is_prefix_iff)
      then show ?thesis by simp
    next
      case (Cons x a')
      with ab have "t = a' @ s @ b" by simp
      then have "py_in s t" using Cons.IH by blast
      then show ?thesis by simp
    qed
  qed
qed

lemma py_in_middle: "py_in s (a @ s @ b)"
  by (auto simp: py_in_iff)

lemma py_in_suffix: "py_in s (a @ s)"
  using py_in_middle [of s a "[]"] by simp

lemma py_in_append: "py_in s t \<Longrightarrow> py_in s (a @ t)"
proof -
  assume "py_in s t"
  then obtain p q where "t = p @ s @ q" by (auto simp: py_in_iff)
  then have "a @ t = (a @ p) @ s @ q" by simp
  then show ?thesis unfolding py_in_iff by blast
qed

lemma py_in_char: "py_in [x] s \<longleftrightarrow> x \<in> set s"
  by (induction s) auto

lemma split_char_not_Nil: "split_char sep s \<noteq> []"
  by (induction s) (auto split: list.splits)

lemma split_char_hd: "sep \<notin> set a \<Longrightarrow> split_char sep (a @ sep # b) = a # split_char sep b"
  by (induction a) auto

lemma hd_split_char: "hd (split_char sep s) = takeWhile (\<lambda>c. c \<noteq> sep) s"
  by (induction s) (auto split: list.splits simp: split_char_not_Nil)

lemma takeWhile_twice: "takeWhile P (takeWhile Q xs) = takeWhile (\<lambda>x. Q x \<and> P x) xs"
  by (induction xs) auto

lemma hdr_get_set_same: "hdr_get (hdr_set hs k v) k = Some v"
  by (induction hs k v rule: hdr_set.induct) auto

lemma hdr_get_set_other:
  "lower k' \<noteq> lower k \<Longrightarrow> hdr_get (hdr_set hs k v) k' = hdr_get hs k'"
  by (induction hs k v rule: hdr_set.induct) auto


section \<open>API client: errors\<close>

lemma entity_id_of_paren:
  assumes "CHR ''('' \<in> set h"
  shows "entity_id_of h = Inr (after_first_paren h)"
proof -
  from assms obtain a b where h: "h = a @ CHR ''('' # b" and a: "CHR ''('' \<notin> set a"
    by (auto dest: split_list_first)
  obtain seg rest where sr: "split_char CHR ''('' b = seg # rest"
    using split_char_not_Nil [of "CHR ''(''" b] by (cases "split_char CHR ''('' b") auto
  have seg: "seg = takeWhile (\<lambda>c. c \<noteq> CHR ''('') b"
    using hd_split_char [of "CHR ''(''" b] sr by simp
  obtain s rest' where s: "split_char CHR '')'' seg = s # rest'"
    using split_char_not_Nil [of "CHR '')''" seg] by (cases "split_char CHR '')'' seg") auto
  have sv: "s = takeWhile (\<lambda>c. c \<noteq> CHR '')'') seg"
    using hd_split_char [of "CHR '')''" seg] s by simp
  have "entity_id_of h = Inr s"
    using h a sr s by (simp add: entity_id_of_def split_char_hd)
  moreover have "dropWhile (\<lambda>c. c \<noteq> CHR ''('') h = CHR ''('' # b"
    using h a by (auto simp: dropWhile_append3)
  ultimately show ?thesis
    by (simp add: after_first_paren_def sv seg takeWhile_twice)
qed

lemma after_first_paren_wellformed:
  assumes "CHR ''('' \<notin> set p" and "CHR ''('' \<notin> set g" and "CHR '')'' \<notin> set g"
  shows "after_first_paren (p @ ''('' @ g @ '')'' @ s) = g"
proof -
  have "dropWhile (\<lambda>c. c \<noteq> CHR ''('') (p @ ''('' @ g @ '')'' @ s) = ''('' @ g @ '')'' @ s"
    using assms(1) by (auto simp: dropWhile_append3)
  moreover have "takeWhile (\<lambda>c. c \<noteq> CHR ''('' \<and> c \<noteq> CHR '')'') (g @ '')'' @ s) = g"
    using assms(2,3) by (auto simp: takeWhile_tail)
  ultimately show ?thesis by (simp add: after_first_paren_def)
qed

lemma post_no_content_result:
  assumes "transport ext sent (post_request c endpoint data) = Inr r"
      and "status_code r = 204"
  shows "fst (post ext c endpoint data sent) =
           Inr (case hdr_get (headers r) ''OData-EntityId'' of
                  None \<Rightarrow> JObj []
                | Some h \<Rightarrow>
                    if CHR ''('' \<in> set h then JObj [(''id'', JStr (after_first_paren h))]
                    else JObj [])"
proof -
  have nr: "\<not> raises_for_status r" using assms(2) by (simp add: raises_for_status_def)
  show ?thesis
  proof (cases "hdr_get (headers r) ''OData-EntityId''")
    case None
    then show ?thesis using assms nr by (simp add: post_def Let_def)
  next
    case (Some h)
    show ?thesis
    proof (cases "CHR ''('' \<in> set h")
      case True
      then have "h \<noteq> []" by auto
      then show ?thesis
        using assms nr Some True
        by (simp add: post_def Let_def py_in_char entity_id_of_paren)
    next
      case False
      then show ?thesis
        using assms nr Some by (simp add: post_def Let_def py_in_char)
    qed
  qed
qed

lemma perform_no_http_error:
  assumes "transport ext sent (request_of c call) = Inr r" and "\<not> raises_for_status r"
  shows "fst (perform ext c call sent) =
           (case call of
              Get endpoint params \<Rightarrow> json_or_empty ext r
            | Post endpoint data \<Rightarrow>
                if status_code r = 204 then
                  Inr (case hdr_get (headers r) ''OData-EntityId'' of
                         None \<Rightarrow> JObj []
                       | Some h \<Rightarrow>
                           if CHR ''('' \<in> set h then JObj [(''id'', JStr (after_first_paren h))]
                           else JObj [])
                else json_or_empty ext r
            | Patch endpoint data \<Rightarrow> json_or_empty ext r
            | Delete endpoint \<Rightarrow> Inr JNull)"
proof (cases call)
  case (Get endpoint params)
  then show ?thesis using assms by (simp add: get_def Let_def)
next
  case (Post endpoint data)
  show ?thesis
  proof (cases "status_code r = 204")
    case True
    then show ?thesis using assms(1) Post post_no_content_result [of ext sent c endpoint data r]
      by simp
  next
    case False
    then show ?thesis using assms Post by (simp add: post_def Let_def)
  qed
next
  case (Patch endpoint data)
  then show ?thesis using assms by (simp add: patch_def Let_def)
next
  case (Delete endpoint)
  then show ?thesis using assms by (simp add: delete_def Let_def)
qed

lemma perform_http_error:
  assumes "transport ext sent (request_of c call) = Inr r" and "raises_for_status r"
  shows "fst (perform ext c call sent) = Inl (http_error r)"
  using assms
  by (cases call) (simp_all add: get_def post_def patch_def delete_def Let_def)

text \<open>
  C1, amended: for every response with a status from 400 to 599, each of \<open>get\<close>,
  \<open>post\<close>, \<open>patch\<close> and \<open>delete\<close> raises \<open>ClientError\<close> with the message
  \<open>HTTP <status>: <body>\<close>; the message contains the decimal status and the body
  text as received, and the dependency check of \<open>delete_connector\<close> finds
  \<open>referenced by\<close> in it whenever the body holds it in any case. For a response with
  any other status, inside 2xx or not, the method goes on as after a success: \<open>get\<close>
  and \<open>patch\<close> give the decoded body or the empty object, \<open>delete\<close> gives \<open>None\<close>,
  \<open>post\<close> gives the identifier object at status 204 and the decoded body or the empty
  object otherwise; the one failure left is a body that does not decode.
\<close>

theorem http_error_message:
  assumes "transport ext sent (request_of c call) = Inr r"
  shows "(400 \<le> status_code r \<and> status_code r < 600 \<longrightarrow>
            fst (perform ext c call sent) =
              Inl (ClientError (''HTTP '' @ str_nat (status_code r) @ '': '' @ body_text r))
            \<and> py_in (str_nat (status_code r))
                (''HTTP '' @ str_nat (status_code r) @ '': '' @ body_text r)
            \<and> py_in (body_text r) (''HTTP '' @ str_nat (status_code r) @ '': '' @ body_text r)
            \<and> (py_in ''referenced by'' (lower (body_text r)) \<longrightarrow>
                 is_dependency_error
                   (ClientError (''HTTP '' @ str_nat (status_code r) @ '': '' @ body_text r))))
         \<and> (\<not> (400 \<le> status_code r \<and> status_code r < 600) \<longrightarrow>
              fst (perform ext c call sent) =
                (case call of
                   Get endpoint params \<Rightarrow> json_or_empty ext r
                 | Post endpoint data \<Rightarrow>
                     if status_code r = 204 then
                       Inr (case hdr_get (headers r) ''OData-EntityId'' of
                              None \<Rightarrow> JObj []
                            | Some h \<Rightarrow>
                                if CHR ''('' \<in> set h
                                then JObj [(''id'', JStr (after_first_paren h))]
                                else JObj [])
                     else json_or_empty ext r
                 | Patch endpoint data \<Rightarrow> json_or_empty ext r
                 | Delete endpoint \<Rightarrow> Inr JNull))"
proof (cases "400 \<le> status_code r \<and> status_code r < 600")
  case True
  then have "raises_for_status r" by (simp add: raises_for_status_def)
  then have a: "fst (perform ext c call sent) =
      Inl (ClientError (''HTTP '' @ str_nat (status_code r) @ '': '' @ body_text r))"
    using perform_http_error [OF assms(1)] by (simp add: http_error_def)
  have b: "py_in (str_nat (status_code r))
      (''HTTP '' @ str_nat (status_code r) @ '': '' @ body_text r)"
    by (rule py_in_middle)
  have c: "py_in (body_text r) (''HTTP '' @ str_nat (status_code r) @ '': '' @ body_text r)"
    using py_in_suffix [of "body_text r" "''HTTP '' @ str_nat (status_code r) @ '': ''"]
    by simp
  have d: "py_in ''referenced by'' (lower (body_text r)) \<longrightarrow>
      is_dependency_error
        (ClientError (''HTTP '' @ str_nat (status_code r) @ '': '' @ body_text r))"
  proof
    assume "py_in ''referenced by'' (lower (body_text r))"
    then have "py_in ''referenced by''
        (lower (''HTTP '' @ str_nat (status_code r) @ '': '') @ lower (body_text r))"
      by (rule py_in_append)
    then show "is_dependency_error
        (ClientError (''HTTP '' @ str_nat (status_code r) @ '': '' @ body_text r))"
      by (simp add: is_dependency_error_def lower_def)
  qed
  from True a b c d show ?thesis by blast
next
  case False
  then have "\<not> raises_for_status r" by (simp add: raises_for_status_def)
  from perform_no_http_error [OF assms(1) this] False show ?thesis by blast
qed

lemma str_nat_404: "str_nat 404 = ''404''"
  by (simp add: str_nat.simps digit_char_def)

lemma str_nat_400: "str_nat 400 = ''400''"
  by (simp add: str_nat.simps digit_char_def)

lemma dependency_body_lower:
  "py_in ''referenced by'' (lower dependency_body)"
  by (simp add: dependency_body_def lower_def lower_char_def)

theorem http_error_message_witness:
  "fst (perform (test_double (answer 404 not_found_body []) no_json no_idp)
          (example_client (test_double (answer 404 not_found_body []) no_json no_idp))
          (Get ''connectors(42)'' None) [])
     = Inl (ClientError (''HTTP 404: '' @ not_found_body))
   \<and> py_in ''404'' (''HTTP 404: '' @ not_found_body)
   \<and> py_in not_found_body (''HTTP 404: '' @ not_found_body)
   \<and> fst (perform (test_double (answer 400 dependency_body []) no_json no_idp)
          (example_client (test_double (answer 400 dependency_body []) no_json no_idp))
          (Delete ''connectors(42)'') [])
     = Inl (ClientError (''HTTP 400: '' @ dependency_body))
   \<and> is_dependency_error (ClientError (''HTTP 400: '' @ dependency_body))
   \<and> fst (perform (test_double (answer 302 not_found_body []) no_json no_idp)
          (example_client (test_double (answer 302 not_found_body []) no_json no_idp))
          (Delete ''connectors(42)'') [])
     = Inr JNull
   \<and> fst (perform (test_double (answer 302 not_found_body []) no_json no_idp)
          (example_client (test_double (answer 302 not_found_body []) no_json no_idp))
          (Patch ''workflows(7)'' (JObj [(''statecode'', JInt 1)])) [])
     = Inl (ClientError ''Request failed: Expecting value: line 1 column 1 (char 0)'')"
  using
    http_error_message [of "test_double (answer 404 not_found_body []) no_json no_idp" "[]"
      "example_client (test_double (answer 404 not_found_body []) no_json no_idp)"
      "Get ''connectors(42)'' None"
      "\<lparr> status_code = 404, body_text = not_found_body, headers = [] \<rparr>"]
    http_error_message [of "test_double (answer 400 dependency_body []) no_json no_idp" "[]"
      "example_client (test_double (answer 400 dependency_body []) no_json no_idp)"
      "Delete ''connectors(42)''"
      "\<lparr> status_code = 400, body_text = dependency_body, headers = [] \<rparr>"]
    http_error_message [of "test_double (answer 302 not_found_body []) no_json no_idp" "[]"
      "example_client (test_double (answer 302 not_found_body []) no_json no_idp)"
      "Delete ''connectors(42)''"
      "\<lparr> status_code = 302, body_text = not_found_body, headers = [] \<rparr>"]
    http_error_message [of "test_double (answer 302 not_found_body []) no_json no_idp" "[]"
      "example_client (test_double (answer 302 not_found_body []) no_json no_idp)"
      "Patch ''workflows(7)'' (JObj [(''statecode'', JInt 1)])"
      "\<lparr> status_code = 302, body_text = not_found_body, headers = [] \<rparr>"]
    dependency_body_lower
  by (simp add: test_double_def answer_def str_nat_404 str_nat_400 json_or_empty_def
      no_json_def request_failed_def not_found_body_def)

text \<open>
  The claim as stated fails for a status outside 2xx for which \<open>raise_for_status\<close>
  does not raise: a 304 response with an empty body makes \<open>get\<close> return the
  empty object.
\<close>

theorem not_modified_is_no_error:
  "fst (perform (test_double (answer 304 [] []) no_json no_idp)
          (example_client (test_double (answer 304 [] []) no_json no_idp))
          (Get ''workflows'' None) [])
     = Inr (JObj [])"
  by (simp add: test_double_def answer_def get_def raises_for_status_def json_or_empty_def)

section \<open>API client: the identifier of a created record\<close>

text \<open>
  C2, amended: when \<open>post\<close> receives status 204 and the \<open>OData-EntityId\<close> header
  contains \<open>(\<close>, the result is \<open>{"id": s}\<close>, where \<open>s\<close> is the text after the first
  \<open>(\<close> up to the next parenthesis or the end of the header; for a header of the
  form \<open>prefix(id)suffix\<close>, with no \<open>(\<close> in the prefix and no parenthesis in the
  id, that is exactly the id. When the header is absent, empty or without \<open>(\<close>,
  the result is the empty object.
\<close>

theorem post_no_content_entity_id:
  assumes "transport ext sent (post_request c endpoint data) = Inr r"
      and "status_code r = 204"
  shows "fst (post ext c endpoint data sent) =
           Inr (case hdr_get (headers r) ''OData-EntityId'' of
                  None \<Rightarrow> JObj []
                | Some h \<Rightarrow>
                    if CHR ''('' \<in> set h then JObj [(''id'', JStr (after_first_paren h))]
                    else JObj [])
         \<and> (\<forall>p g s. CHR ''('' \<notin> set p \<and> CHR ''('' \<notin> set g \<and> CHR '')'' \<notin> set g \<longrightarrow>
               after_first_paren (p @ ''('' @ g @ '')'' @ s) = g)"
proof -
  have nr: "\<not> raises_for_status r" using assms(2) by (simp add: raises_for_status_def)
  have "fst (post ext c endpoint data sent) =
           Inr (case hdr_get (headers r) ''OData-EntityId'' of
                  None \<Rightarrow> JObj []
                | Some h \<Rightarrow>
                    if CHR ''('' \<in> set h then JObj [(''id'', JStr (after_first_paren h))]
                    else JObj [])"
  proof (cases "hdr_get (headers r) ''OData-EntityId''")
    case None
    then show ?thesis using assms nr by (simp add: post_def Let_def)
  next
    case (Some h)
    show ?thesis
    proof (cases "CHR ''('' \<in> set h")
      case True
      then have "h \<noteq> []" by auto
      then show ?thesis
        using assms nr Some True
        by (simp add: post_def Let_def py_in_char entity_id_of_paren)
    next
      case False
      then show ?thesis
        using assms nr Some by (simp add: post_def Let_def py_in_char)
    qed
  qed
  then show ?thesis using after_first_paren_wellformed by blast
qed

lemma entity_id_example_value:
  "after_first_paren entity_id_example = ''29e2253b-cabc-f011-bbd3-000d3a8ba54e''"
  by (simp add: after_first_paren_def entity_id_example_def)

lemma entity_id_example_lookup:
  "hdr_get [(''odata-entityid'', entity_id_example)] ''OData-EntityId'' = Some entity_id_example"
  by (simp add: lower_def lower_char_def)

lemma entity_id_example_paren: "CHR ''('' \<in> set entity_id_example"
  by (simp add: entity_id_example_def)

theorem post_no_content_entity_id_witness:
  "status_code \<lparr> status_code = 204, body_text = [],
       headers = [(''odata-entityid'', entity_id_example)] \<rparr> = 204
   \<and> fst (post (test_double (answer 204 [] [(''odata-entityid'', entity_id_example)]) no_json no_idp)
          (example_client (test_double (answer 204 [] [(''odata-entityid'', entity_id_example)])
             no_json no_idp))
          ''workflows'' (JObj [(''name'', JStr ''My Flow'')]) [])
     = Inr (JObj [(''id'', JStr ''29e2253b-cabc-f011-bbd3-000d3a8ba54e'')])"
  using
    post_no_content_entity_id [of
      "test_double (answer 204 [] [(''odata-entityid'', entity_id_example)]) no_json no_idp" "[]"
      "example_client (test_double (answer 204 [] [(''odata-entityid'', entity_id_example)])
         no_json no_idp)"
      "''workflows''" "JObj [(''name'', JStr ''My Flow'')]"
      "\<lparr> status_code = 204, body_text = [],
         headers = [(''odata-entityid'', entity_id_example)] \<rparr>"]
    entity_id_example_value entity_id_example_lookup entity_id_example_paren
  by (simp add: test_double_def answer_def)

text \<open>
  The claim as stated fails for a malformed header that has \<open>(\<close> but no \<open>)\<close>: the
  result is not the empty object.
\<close>

lemma entity_id_truncated_value: "entity_id_of entity_id_truncated = Inr ''29e2253b''"
  by (simp add: entity_id_of_def entity_id_truncated_def)

lemma entity_id_truncated_lookup:
  "hdr_get [(''OData-EntityId'', entity_id_truncated)] ''OData-EntityId'' = Some entity_id_truncated"
  by simp

lemma entity_id_truncated_paren:
  "entity_id_truncated \<noteq> [] \<and> py_in ''('' entity_id_truncated"
  by (simp add: entity_id_truncated_def)

theorem malformed_header_gives_id:
  "fst (post (test_double (answer 204 [] [(''OData-EntityId'', entity_id_truncated)]) no_json no_idp)
          (example_client (test_double (answer 204 [] [(''OData-EntityId'', entity_id_truncated)])
             no_json no_idp))
          ''workflows'' (JObj [(''name'', JStr ''My Flow'')]) [])
     = Inr (JObj [(''id'', JStr ''29e2253b'')])"
  using entity_id_truncated_value entity_id_truncated_paren
  by (simp add: post_def Let_def test_double_def answer_def raises_for_status_def
      entity_id_truncated_lookup del: hdr_get.simps)


section \<open>API client: session headers\<close>

lemma lower_write_headers:
  "lower ''Prefer'' \<noteq> lower ''Content-Type''" "lower ''Content-Type'' \<noteq> lower ''Prefer''"
  by (simp_all add: lower_def lower_char_def)

lemma post_client_headers:
  "hdr_get (session_headers (post_client c)) ''Content-Type'' = Some ''application/json''"
  "hdr_get (session_headers (post_client c)) ''Prefer'' = Some ''return=representation''"
  by (simp_all add: post_client_def hdr_get_set_same hdr_get_set_other lower_write_headers
      del: hdr_get.simps hdr_set.simps)

lemma post_leaves_post_client: "fst (snd (post ext c endpoint data sent)) = post_client c"
  by (simp add: post_def Let_def split: sum.splits)

text \<open>
  Whatever the client, the request and the answer were, a \<open>get\<close> that follows a
  \<open>post\<close> on the same client is sent with the two headers the \<open>post\<close> stored in the
  session.
\<close>

lemma get_after_post_headers:
  "hdr_get (req_headers (get_request (fst (snd (post ext c endpoint data sent))) endpoint' params))
     ''Content-Type'' = Some ''application/json''
   \<and> hdr_get (req_headers (get_request (fst (snd (post ext c endpoint data sent))) endpoint' params))
     ''Prefer'' = Some ''return=representation''"
  by (simp add: post_leaves_post_client get_request_def post_client_headers
      del: hdr_get.simps)

text \<open>
  C8 at a concrete sequence: a client built for \<open>https://org.crm.dynamics.com/\<close> issues
  a POST and then a GET; the GET request carries \<open>Content-Type\<close> and \<open>Prefer\<close>.
\<close>

theorem get_after_post_carries_write_headers:
  "(case perform_all (test_double (answer 200 [] []) no_json no_idp)
           (example_client (test_double (answer 200 [] []) no_json no_idp))
           [Post ''workflows'' (JObj [(''name'', JStr ''My Flow'')]), Get ''workflows'' None] []
    of (c', sent) \<Rightarrow>
      map req_method sent = [POST, GET]
      \<and> hdr_get (req_headers (sent ! 1)) ''Content-Type'' = Some ''application/json''
      \<and> hdr_get (req_headers (sent ! 1)) ''Prefer'' = Some ''return=representation'')"
  by (simp add: test_double_def answer_def post_def get_def Let_def raises_for_status_def
      json_or_empty_def post_request_def get_request_def post_client_headers
      del: hdr_get.simps)

text \<open>
  A client that has issued no \<open>post\<close> or \<open>patch\<close> sends the four fixed headers, and
  neither \<open>Content-Type\<close> nor \<open>Prefer\<close> unless the session defaults hold them.
\<close>

lemma lower_fixed_headers:
  "lower ''Authorization'' \<noteq> lower ''Accept''" "lower ''Authorization'' \<noteq> lower ''OData-MaxVersion''"
  "lower ''Authorization'' \<noteq> lower ''OData-Version''" "lower ''Accept'' \<noteq> lower ''OData-MaxVersion''"
  "lower ''Accept'' \<noteq> lower ''OData-Version''" "lower ''OData-MaxVersion'' \<noteq> lower ''OData-Version''"
  "lower ''Content-Type'' \<noteq> lower ''Authorization''" "lower ''Content-Type'' \<noteq> lower ''Accept''"
  "lower ''Content-Type'' \<noteq> lower ''OData-MaxVersion''" "lower ''Content-Type'' \<noteq> lower ''OData-Version''"
  "lower ''Prefer'' \<noteq> lower ''Authorization''" "lower ''Prefer'' \<noteq> lower ''Accept''"
  "lower ''Prefer'' \<noteq> lower ''OData-MaxVersion''" "lower ''Prefer'' \<noteq> lower ''OData-Version''"
  by (simp_all add: lower_def lower_char_def)

lemma fresh_client_headers:
  "hdr_get (session_headers (DataverseClient_init ext url token)) ''Authorization''
     = Some (''Bearer '' @ fmt_opt token)"
  "hdr_get (session_headers (DataverseClient_init ext url token)) ''Accept''
     = Some ''application/json''"
  "hdr_get (session_headers (DataverseClient_init ext url token)) ''OData-MaxVersion'' = Some ''4.0''"
  "hdr_get (session_headers (DataverseClient_init ext url token)) ''OData-Version'' = Some ''4.0''"
  "hdr_get (session_headers (DataverseClient_init ext url token)) ''Content-Type''
     = hdr_get (default_headers ext) ''Content-Type''"
  "hdr_get (session_headers (DataverseClient_init ext url token)) ''Prefer''
     = hdr_get (default_headers ext) ''Prefer''"
  using lower_fixed_headers lower_fixed_headers [symmetric]
  by (simp_all add: DataverseClient_init_def hdr_get_set_same hdr_get_set_other
      del: hdr_get.simps hdr_set.simps)


section \<open>Client factory\<close>

lemma no_missing_means_token_or_service_principal:
  "get_missing_credentials config = [] \<Longrightarrow>
     has_token_auth config \<or> has_service_principal_auth config"
  by (auto simp: get_missing_credentials_def has_token_auth_def has_service_principal_auth_def
      split: if_splits)

lemma get_config_client: "global_client (snd (get_config w)) = global_client w"
  by (simp add: get_config_def split: option.splits)


lemma create_client_failure:
  assumes "create_client ext w = (Inl e, w')"
  shows "global_client w' = global_client w"
  using assms get_config_client [of w]
  by (auto simp: create_client_def Let_def split: prod.splits if_splits sum.splits)


lemma token_world_client:
  "get_client dataverse_double (fresh_world token_env) = (Inr token_client, token_world)"
  by (simp add: get_client_def create_client_def get_config_def fresh_world_def token_env_def
      Config_init_def get_missing_credentials_def present_def has_token_auth_def
      new_DataverseClient_def token_client_def token_world_def Let_def)



text \<open>
  C9: when \<open>get_client\<close> raises, no client was cached before and none is cached
  after, so the next call goes through the whole of the credential check and the
  authentication again.
\<close>

theorem get_client_failure_leaves_cache_empty:
  assumes "get_client ext w = (Inl e, w')"
  shows "global_client w = None \<and> global_client w' = None
         \<and> get_client ext w' = create_client ext w'"
proof -
  have n: "global_client w = None"
    using assms by (cases "global_client w") (auto simp: get_client_def)
  then have "create_client ext w = (Inl e, w')" using assms by (simp add: get_client_def)
  then have "global_client w' = None" using create_client_failure n by simp
  then show ?thesis using n by (simp add: get_client_def)
qed


lemma refused_example:
  "fst (get_client (test_double (answer 200 [] []) no_json refusing_idp)
          (fresh_world service_principal_env))
     = Inl (ClientError (''Failed to authenticate with service principal: '' @
              ''Failed to acquire token: AADSTS7000215: Invalid client secret''))"
  by (simp add: get_client_def create_client_def get_config_def fresh_world_def
      service_principal_env_def Config_init_def get_missing_credentials_def present_def
      has_token_auth_def has_service_principal_auth_def get_service_principal_token_def
      get_auth_scope_def fmt_opt_def test_double_def refusing_idp_def token_error_def
      Let_def)

theorem get_client_failure_leaves_cache_empty_witness:
  "fst (get_client (test_double (answer 200 [] []) no_json refusing_idp)
          (fresh_world service_principal_env))
     = Inl (ClientError (''Failed to authenticate with service principal: '' @
              ''Failed to acquire token: AADSTS7000215: Invalid client secret''))
   \<and> global_client (fresh_world service_principal_env) = None
   \<and> global_client (snd (get_client (test_double (answer 200 [] []) no_json refusing_idp)
          (fresh_world service_principal_env))) = None"
proof -
  let ?E = "test_double (answer 200 [] []) no_json refusing_idp"
  let ?W = "fresh_world service_principal_env"
  have h: "get_client ?E ?W =
      (Inl (ClientError (''Failed to authenticate with service principal: '' @
              ''Failed to acquire token: AADSTS7000215: Invalid client secret'')),
       snd (get_client ?E ?W))"
    using refused_example by (simp add: prod_eq_iff)
  from get_client_failure_leaves_cache_empty [OF h] refused_example show ?thesis by simp
qed

section \<open>Client factory: the choice of the strategy\<close>

text \<open>
  With token authentication the token of the configuration is the client's token and
  the identity provider is not called.
\<close>

lemma token_used_as_is:
  assumes "global_client w = None" and "get_config w = (config, w1)"
      and "has_token_auth config"
  shows "\<exists>url. Config.dataverse_url config = Some url
           \<and> get_client ext w =
               (Inr (DataverseClient_init ext url (Config.access_token config)),
                w1\<lparr> global_client :=
                      Some (DataverseClient_init ext url (Config.access_token config)) \<rparr>)"
proof -
  from assms(3) obtain url where u: "Config.dataverse_url config = Some url"
    by (auto simp: has_token_auth_def present_def split: option.splits)
  have "get_missing_credentials config = []"
    using assms(3) by (simp add: has_token_auth_def get_missing_credentials_def)
  then show ?thesis
    using assms u by (simp add: get_client_def create_client_def new_DataverseClient_def)
qed

text \<open>
  Without token authentication, passing the check of the missing credentials means
  that the service-principal credentials are complete: the branch of the user flow
  is never reached.
\<close>

lemma user_flow_unreachable:
  assumes "get_missing_credentials config = []" and "\<not> has_token_auth config"
  shows "has_service_principal_auth config"
  using assms no_missing_means_token_or_service_principal by blast

text \<open>
  C3 at a configuration that is complete for user authentication and has neither a
  token nor a client secret: \<open>get_client\<close> raises the error of the missing
  credentials, naming the client secret, and the identity provider is not called.
\<close>

theorem user_credentials_are_rejected:
  "has_user_auth (Config_init user_env)
   \<and> fst (get_client (test_double (answer 200 [] []) no_json granting_idp) (fresh_world user_env))
       = Inl (ClientError (missing_credentials_message [''DATAVERSE_CLIENT_SECRET'']))
   \<and> idp_calls (snd (get_client (test_double (answer 200 [] []) no_json granting_idp)
         (fresh_world user_env))) = []"
  by (simp add: get_client_def create_client_def get_config_def fresh_world_def
      user_env_def Config_init_def get_missing_credentials_def present_def
      has_user_auth_def Let_def)


section \<open>Solution-scoped flow listing\<close>

lemma get_sent: "snd (get ext c endpoint params sent) = sent @ [get_request c endpoint params]"
  by (simp add: get_def Let_def split: sum.splits)

lemma get_config_http: "http_sent (snd (get_config w)) = http_sent w"
  by (simp add: get_config_def split: option.splits)

lemma create_client_http: "http_sent (snd (create_client ext w)) = http_sent w"
  using get_config_http [of w]
  by (auto simp: create_client_def Let_def split: prod.splits if_splits sum.splits)

lemma get_client_http: "http_sent (snd (get_client ext w)) = http_sent w"
  by (simp add: get_client_def create_client_http split: option.splits)

lemma not_workflows:
  "\<not> is_workflows_query c (get_request c ''solutions'' ps)"
  "\<not> is_workflows_query c (get_request c ''solutioncomponents'' ps)"
  by (simp_all add: is_workflows_query_def get_request_def)

lemma resolve_solution_id_http:
  "filter (is_workflows_query c) (http_sent (snd (resolve_solution_id ext c solution_id name w)))
     = filter (is_workflows_query c) (http_sent w)"
proof (cases "present name \<and> \<not> present solution_id")
  case False
  then show ?thesis by (auto simp: resolve_solution_id_def echo_def split: if_splits)
next
  case True
  obtain res sent where g: "get ext c ''solutions'' (Some (solution_lookup_params (fmt_opt name)))
      (http_sent w) = (res, sent)" by force
  then have s: "sent = http_sent w @ [get_request c ''solutions'' (Some (solution_lookup_params (fmt_opt name)))]"
    using get_sent [of ext c "''solutions''" "Some (solution_lookup_params (fmt_opt name))" "http_sent w"]
    by simp
  show ?thesis using True g
    by (auto simp: resolve_solution_id_def Let_def echo_def s not_workflows
        split: sum.splits if_splits)
qed

lemma fetch_solution_flows_empty:
  assumes "get ext client ''solutioncomponents'' (Some (component_params ext sid)) (http_sent w)
             = (Inr component_result, sent)"
      and "\<not> truthy (format_response ext component_result)
           \<or> workflow_ids_of (format_response ext component_result) = Inr []"
  shows "fetch_solution_flows ext client sid w = (Inr (JArr []), w\<lparr> http_sent := sent \<rparr>)"
  using assms by (auto simp: fetch_solution_flows_def Let_def)

lemma show_flows_empty:
  "show_flows ext table_format (JArr []) w =
     (Inr (), echo (if table_format then Print_table (JArr []) flow_columns else Print_json (JArr [])) w)"
  by (simp add: show_flows_def)

text \<open>
  C7: in \<open>list_solution_flows\<close>, when the query of \<open>solutioncomponents\<close> (solution id,
  component type 29) answers with an empty component set, or no object id can be
  taken from the components, the command shows the empty list and returns; the
  component query is the one request it sends after resolving the solution, and the
  command as a whole sends no request to \<open>workflows\<close>.
\<close>

theorem empty_components_short_circuit:
  assumes "get_client ext w = (Inr client, w1)"
      and "resolve_solution_id ext client solution_id name w1 = (Inr sid, w2)"
      and "get ext client ''solutioncomponents'' (Some (component_params ext sid)) (http_sent w2)
             = (Inr component_result, sent)"
      and "\<not> truthy (format_response ext component_result)
           \<or> workflow_ids_of (format_response ext component_result) = Inr []"
  shows "list_solution_flows ext solution_id name table_format w =
           (None, w2\<lparr> http_sent := sent,
                       console := console w2 @
                         [if table_format then Print_table (JArr []) flow_columns
                          else Print_json (JArr [])] \<rparr>)
         \<and> sent = http_sent w2 @
                    [get_request client ''solutioncomponents'' (Some (component_params ext sid))]
         \<and> filter (is_workflows_query client) sent = filter (is_workflows_query client) (http_sent w)"
proof -
  have a: "list_solution_flows ext solution_id name table_format w =
           (None, w2\<lparr> http_sent := sent,
                       console := console w2 @
                         [if table_format then Print_table (JArr []) flow_columns
                          else Print_json (JArr [])] \<rparr>)"
    using assms(1,2) fetch_solution_flows_empty [OF assms(3,4)]
    by (simp add: list_solution_flows_def list_solution_flows_try_def show_flows_empty
        except_exit_def echo_def)
  have b: "sent = http_sent w2 @
      [get_request client ''solutioncomponents'' (Some (component_params ext sid))]"
    using get_sent [of ext client "''solutioncomponents''" "Some (component_params ext sid)"
        "http_sent w2"] assms(3) by simp
  have "http_sent w1 = http_sent w" using get_client_http [of ext w] assms(1) by simp
  moreover have "filter (is_workflows_query client) (http_sent w2)
      = filter (is_workflows_query client) (http_sent w1)"
    using resolve_solution_id_http [of client ext solution_id name w1] assms(2) by simp
  ultimately have c: "filter (is_workflows_query client) sent
      = filter (is_workflows_query client) (http_sent w)"
    using b by (simp add: not_workflows)
  from a b c show ?thesis by blast
qed

lemma token_world_fields: "http_sent token_world = []" "console token_world = []"
  by (simp_all add: token_world_def fresh_world_def)

lemma token_client_api_base:
  "api_base token_client = ''https://org.crm.dynamics.com/api/data/v9.2''"
  by (simp add: token_client_def DataverseClient_init_def rstrip_slash_def)

lemma components_of_s1:
  "get dataverse_double token_client ''solutioncomponents''
     (Some (component_params dataverse_double (JStr ''s1''))) []
   = (Inr (JObj [(''value'', JArr [])]),
      [get_request token_client ''solutioncomponents''
         (Some (component_params dataverse_double (JStr ''s1'')))])"
  by (simp add: get_def get_request_def token_client_api_base component_params_def fmt_json_def
      dataverse_double_def test_double_def dataverse_net_def answer_def raises_for_status_def
      json_or_empty_def dataverse_json_def empty_list_body_def Let_def)

lemma components_of_s2:
  "get dataverse_double token_client ''solutioncomponents''
     (Some (component_params dataverse_double (JStr ''s2''))) []
   = (Inr (JObj [(''value'', JArr [JObj [(''objectid'', JNull)]])]),
      [get_request token_client ''solutioncomponents''
         (Some (component_params dataverse_double (JStr ''s2'')))])"
  by (simp add: get_def get_request_def token_client_api_base component_params_def fmt_json_def
      dataverse_double_def test_double_def dataverse_net_def answer_def raises_for_status_def
      json_or_empty_def dataverse_json_def empty_list_body_def orphan_body_def Let_def)

lemma format_response_examples:
  "format_response dataverse_double (JObj [(''value'', JArr xs)]) = JArr xs"
  by (simp add: dataverse_double_def test_double_def format_response_spec_def)

theorem empty_components_short_circuit_witness:
  "list_solution_flows dataverse_double (Some ''s1'') None False (fresh_world token_env)
     = (None, token_world
          \<lparr> http_sent := [get_request token_client ''solutioncomponents''
                 (Some (component_params dataverse_double (JStr ''s1'')))],
            console := [Print_json (JArr [])] \<rparr>)
   \<and> list_solution_flows dataverse_double (Some ''s2'') None True (fresh_world token_env)
     = (None, token_world
          \<lparr> http_sent := [get_request token_client ''solutioncomponents''
                 (Some (component_params dataverse_double (JStr ''s2'')))],
            console := [Print_table (JArr []) flow_columns] \<rparr>)"
proof -
  have r1: "resolve_solution_id dataverse_double token_client (Some ''s1'') None token_world
      = (Inr (JStr ''s1''), token_world)"
    by (simp add: resolve_solution_id_def present_def)
  have r2: "resolve_solution_id dataverse_double token_client (Some ''s2'') None token_world
      = (Inr (JStr ''s2''), token_world)"
    by (simp add: resolve_solution_id_def present_def)
  have e1: "\<not> truthy (format_response dataverse_double (JObj [(''value'', JArr [])]))
      \<or> workflow_ids_of (format_response dataverse_double (JObj [(''value'', JArr [])])) = Inr []"
    by (simp add: format_response_examples)
  have e2: "\<not> truthy (format_response dataverse_double
          (JObj [(''value'', JArr [JObj [(''objectid'', JNull)]])]))
      \<or> workflow_ids_of (format_response dataverse_double
          (JObj [(''value'', JArr [JObj [(''objectid'', JNull)]])])) = Inr []"
    by (simp add: format_response_examples workflow_ids_of_def py_iter_def dict_get_def)
  have g1: "get dataverse_double token_client ''solutioncomponents''
      (Some (component_params dataverse_double (JStr ''s1''))) (http_sent token_world)
      = (Inr (JObj [(''value'', JArr [])]),
         [get_request token_client ''solutioncomponents''
            (Some (component_params dataverse_double (JStr ''s1'')))])"
    using components_of_s1 by (simp add: token_world_fields)
  have g2: "get dataverse_double token_client ''solutioncomponents''
      (Some (component_params dataverse_double (JStr ''s2''))) (http_sent token_world)
      = (Inr (JObj [(''value'', JArr [JObj [(''objectid'', JNull)]])]),
         [get_request token_client ''solutioncomponents''
            (Some (component_params dataverse_double (JStr ''s2'')))])"
    using components_of_s2 by (simp add: token_world_fields)
  from
    empty_components_short_circuit [OF token_world_client r1 g1 e1, of False]
    empty_components_short_circuit [OF token_world_client r2 g2 e2, of True]
  show ?thesis by (simp add: token_world_fields)
qed

section \<open>Flow listing with an unknown solution name\<close>

lemma filter_by_solution_none:
  assumes "present solution"
      and "get ext client ''solutions'' (Some (solution_lookup_params (fmt_opt solution)))
             (http_sent w) = (Inr solution_result, sent)"
      and "\<not> truthy (format_response ext solution_result)"
  shows "filter_by_solution ext client solution (JArr fl) w = (Inr (JArr fl), w\<lparr> http_sent := sent \<rparr>)"
  using assms by (simp add: filter_by_solution_def Let_def)

text \<open>
  C10: in \<open>list_flows\<close> with \<open>--solution\<close>, when the flows fetched are a list and the
  lookup of the name answers with no solution, the command returns normally and shows
  all the flows fetched: as JSON the whole list, with \<open>--table\<close> one row for every
  flow.
\<close>

theorem unknown_solution_lists_all_flows:
  assumes "get_client ext w = (Inr client, w1)"
      and "get ext client ''workflows'' (Some (flow_params state)) (http_sent w1) = (Inr result, sent)"
      and "format_response ext result = JArr fl"
      and "present solution"
      and "get ext client ''solutions'' (Some (solution_lookup_params (fmt_opt solution))) sent
             = (Inr solution_result, sent')"
      and "\<not> truthy (format_response ext solution_result)"
  shows "list_flows ext solution state False w =
           (None, w1\<lparr> http_sent := sent', console := console w1 @ [Print_json (JArr fl)] \<rparr>)
         \<and> (\<forall>rows. with_states ext fl = Inr rows \<longrightarrow>
               list_flows ext solution state True w =
                 (None, w1\<lparr> http_sent := sent',
                             console := console w1 @ [Print_table (JArr rows) flow_columns] \<rparr>)
               \<and> length rows = length fl)"
proof -
  have f: "filter_by_solution ext client solution (JArr fl) (w1\<lparr> http_sent := sent \<rparr>)
      = (Inr (JArr fl), w1\<lparr> http_sent := sent' \<rparr>)"
    using filter_by_solution_none [of solution ext client "w1\<lparr> http_sent := sent \<rparr>"
        solution_result sent' fl] assms(4,5,6) by simp
  have t: "list_flows_try ext solution state table_format w
      = show_flows ext table_format (JArr fl) (w1\<lparr> http_sent := sent' \<rparr>)" for table_format
    using assms(1,2,3) f by (simp add: list_flows_try_def)
  have a: "list_flows ext solution state False w =
           (None, w1\<lparr> http_sent := sent', console := console w1 @ [Print_json (JArr fl)] \<rparr>)"
    by (simp add: list_flows_def t show_flows_def except_exit_def echo_def)
  have len: "with_states ext xs = Inr rows \<Longrightarrow> length rows = length xs" for xs rows
    by (induction xs arbitrary: rows) (auto split: sum.splits)
  have b: "with_states ext fl = Inr rows \<Longrightarrow>
               list_flows ext solution state True w =
                 (None, w1\<lparr> http_sent := sent',
                             console := console w1 @ [Print_table (JArr rows) flow_columns] \<rparr>)" for rows
    by (simp add: list_flows_def t show_flows_def except_exit_def echo_def)
  from a b len show ?thesis by blast
qed


lemma flows_fetched:
  "get dataverse_double token_client ''workflows'' (Some (flow_params None)) []
   = (Inr (JObj [(''value'',
               JArr [JObj [(''name'', JStr ''A''), (''statecode'', JInt 1)],
                     JObj [(''name'', JStr ''B''), (''statecode'', JInt 0)]])]),
      [get_request token_client ''workflows'' (Some (flow_params None))])"
  by (simp add: get_def get_request_def token_client_api_base
      dataverse_double_def test_double_def dataverse_net_def answer_def raises_for_status_def
      json_or_empty_def dataverse_json_def empty_list_body_def orphan_body_def flows_body_def
      Let_def)

lemma solution_not_found:
  "get dataverse_double token_client ''solutions''
     (Some (solution_lookup_params (fmt_opt (Some ''Missing''))))
     [get_request token_client ''workflows'' (Some (flow_params None))]
   = (Inr (JObj [(''value'', JArr [])]),
      [get_request token_client ''workflows'' (Some (flow_params None)),
       get_request token_client ''solutions'' (Some (solution_lookup_params ''Missing''))])"
  by (simp add: get_def get_request_def token_client_api_base fmt_opt_def
      dataverse_double_def test_double_def dataverse_net_def answer_def raises_for_status_def
      json_or_empty_def dataverse_json_def empty_list_body_def Let_def)

lemma example_rows:
  "with_states dataverse_double
     [JObj [(''name'', JStr ''A''), (''statecode'', JInt 1)],
      JObj [(''name'', JStr ''B''), (''statecode'', JInt 0)]]
   = Inr [JObj [(''name'', JStr ''A''), (''statecode'', JInt 1), (''state'', JStr ''Activated'')],
          JObj [(''name'', JStr ''B''), (''statecode'', JInt 0), (''state'', JStr ''Draft'')]]"
  by (simp add: with_state_def dataverse_double_def test_double_def)

theorem unknown_solution_lists_all_flows_witness:
  "list_flows dataverse_double (Some ''Missing'') None False (fresh_world token_env)
     = (None, token_world
          \<lparr> http_sent :=
              [get_request token_client ''workflows'' (Some (flow_params None)),
               get_request token_client ''solutions'' (Some (solution_lookup_params ''Missing''))],
            console :=
              [Print_json (JArr [JObj [(''name'', JStr ''A''), (''statecode'', JInt 1)],
                                 JObj [(''name'', JStr ''B''), (''statecode'', JInt 0)]])] \<rparr>)
   \<and> list_flows dataverse_double (Some ''Missing'') None True (fresh_world token_env)
     = (None, token_world
          \<lparr> http_sent :=
              [get_request token_client ''workflows'' (Some (flow_params None)),
               get_request token_client ''solutions'' (Some (solution_lookup_params ''Missing''))],
            console :=
              [Print_table
                 (JArr [JObj [(''name'', JStr ''A''), (''statecode'', JInt 1),
                              (''state'', JStr ''Activated'')],
                        JObj [(''name'', JStr ''B''), (''statecode'', JInt 0),
                              (''state'', JStr ''Draft'')]])
                 flow_columns] \<rparr>)"
proof -
  have p: "present (Some ''Missing'')" by (simp add: present_def)
  have n: "\<not> truthy (format_response dataverse_double (JObj [(''value'', JArr [])]))"
    by (simp add: format_response_examples)
  have g: "get dataverse_double token_client ''workflows'' (Some (flow_params None))
      (http_sent token_world)
      = (Inr (JObj [(''value'',
               JArr [JObj [(''name'', JStr ''A''), (''statecode'', JInt 1)],
                     JObj [(''name'', JStr ''B''), (''statecode'', JInt 0)]])]),
         [get_request token_client ''workflows'' (Some (flow_params None))])"
    using flows_fetched by (simp add: token_world_fields)
  from
    unknown_solution_lists_all_flows [OF token_world_client g format_response_examples p
      solution_not_found n]
    example_rows
  show ?thesis by (simp add: token_world_fields fmt_opt_def)
qed


end
